theory Spec2Isabelle
  imports Main "HOL-Library.FSet"
begin

section \<open>Text primitives\<close>

text \<open>
  The ingestion service of \<^verbatim>\<open>main3_rulebased.py\<close> works on Python strings, which are
  sequences of Unicode code points: a string is a list of natural numbers, and \<open>py\<close>
  turns an ASCII literal into one. A spreadsheet cell is a string or missing (pandas' NaN
  or None, whose \<^verbatim>\<open>str()\<close> is a placeholder either way).
\<close>

type_synonym py_str = "nat list"

type_synonym cell = "py_str option"

definition py :: "string \<Rightarrow> py_str" where
  "py s = map of_char s"

text \<open>
  What Python's string methods and regular-expression classes do on ASCII is written out
  below. Beyond ASCII they follow the Unicode database of the interpreter, which is a
  parameter of the model: which code points are whitespace (\<^verbatim>\<open>str.isspace\<close>,
  \<^verbatim>\<open>str.strip\<close>, \<^verbatim>\<open>\s\<close>), which satisfy \<^verbatim>\<open>str.isdigit\<close>, which are decimal
  digits and of what value (\<^verbatim>\<open>\d\<close>, \<^verbatim>\<open>int\<close>), and what \<^verbatim>\<open>str.lower\<close>,
  \<^verbatim>\<open>str.upper\<close> and \<^verbatim>\<open>str.title\<close> return on a string that is not all ASCII.
  \<open>t_max_digits\<close> is \<^verbatim>\<open>sys.int_max_str_digits\<close>: no limit, or \<open>Some k\<close> for the limit
  \<open>640 + k\<close> (Python admits no limit below 640).
\<close>

record tables =
  t_isspace :: "nat \<Rightarrow> bool"
  t_isdigit :: "nat \<Rightarrow> bool"
  t_decimal :: "nat \<Rightarrow> nat option"
  t_lower :: "py_str \<Rightarrow> py_str"
  t_upper :: "py_str \<Rightarrow> py_str"
  t_title :: "py_str \<Rightarrow> py_str"
  t_max_digits :: "nat option"

definition ascii :: "nat \<Rightarrow> bool" where
  "ascii c = (c < 128)"

definition whitespace :: "nat list" where
  "whitespace = [9, 10, 11, 12, 13, 28, 29, 30, 31, 32]"

definition isspace :: "tables \<Rightarrow> nat \<Rightarrow> bool" where
  "isspace T c = (if c < 128 then c \<in> set whitespace else t_isspace T c)"

definition strip :: "tables \<Rightarrow> py_str \<Rightarrow> py_str" where
  "strip T s = rev (dropWhile (isspace T) (rev (dropWhile (isspace T) s)))"

text \<open>One character of \<^verbatim>\<open>str.isdigit\<close>, and of \<^verbatim>\<open>[0-9]\<close>.\<close>

definition is_ascii_digit :: "nat \<Rightarrow> bool" where
  "is_ascii_digit c = (48 \<le> c \<and> c \<le> 57)"

definition is_digit_char :: "tables \<Rightarrow> nat \<Rightarrow> bool" where
  "is_digit_char T c = (if c < 128 then is_ascii_digit c else t_isdigit T c)"

text \<open>\<^verbatim>\<open>s.isdigit()\<close>: non-empty and every character a digit.\<close>

definition isdigit :: "tables \<Rightarrow> py_str \<Rightarrow> bool" where
  "isdigit T s = (s \<noteq> [] \<and> list_all (is_digit_char T) s)"

text \<open>The value of a decimal digit: the characters of \<^verbatim>\<open>\d\<close>, which \<^verbatim>\<open>int\<close> reads.\<close>

definition decimal_value :: "tables \<Rightarrow> nat \<Rightarrow> nat option" where
  "decimal_value T c =
     (if c < 128 then (if is_ascii_digit c then Some (c - 48) else None) else t_decimal T c)"

definition is_decimal :: "tables \<Rightarrow> nat \<Rightarrow> bool" where
  "is_decimal T c = (decimal_value T c \<noteq> None)"

definition is_lower_char :: "nat \<Rightarrow> bool" where
  "is_lower_char c = (97 \<le> c \<and> c \<le> 122)"

definition is_upper_char :: "nat \<Rightarrow> bool" where
  "is_upper_char c = (65 \<le> c \<and> c \<le> 90)"

definition is_alpha_char :: "nat \<Rightarrow> bool" where
  "is_alpha_char c = (is_lower_char c \<or> is_upper_char c)"

definition lower_char :: "nat \<Rightarrow> nat" where
  "lower_char c = (if is_upper_char c then c + 32 else c)"

definition upper_char :: "nat \<Rightarrow> nat" where
  "upper_char c = (if is_lower_char c then c - 32 else c)"

definition lower :: "tables \<Rightarrow> py_str \<Rightarrow> py_str" where
  "lower T s = (if list_all ascii s then map lower_char s else t_lower T s)"

definition upper :: "tables \<Rightarrow> py_str \<Rightarrow> py_str" where
  "upper T s = (if list_all ascii s then map upper_char s else t_upper T s)"

text \<open>
  \<^verbatim>\<open>s.title()\<close> on ASCII: a letter that follows a letter is lowered, any other letter is
  raised; the flag says whether the previous character was a letter.
\<close>

fun title_from :: "bool \<Rightarrow> py_str \<Rightarrow> py_str" where
  "title_from prev [] = []"
| "title_from prev (c # cs) =
     (if prev then lower_char c else upper_char c) # title_from (is_alpha_char c) cs"

definition title :: "tables \<Rightarrow> py_str \<Rightarrow> py_str" where
  "title T s = (if list_all ascii s then title_from False s else t_title T s)"

text \<open>\<^verbatim>\<open>sub in s\<close> on strings: \<open>sub\<close> occurs in \<open>s\<close> as a contiguous run.\<close>

fun starts_with :: "py_str \<Rightarrow> py_str \<Rightarrow> bool" where
  "starts_with [] s = True"
| "starts_with (p # ps) [] = False"
| "starts_with (p # ps) (c # cs) = (p = c \<and> starts_with ps cs)"

fun contains :: "py_str \<Rightarrow> py_str \<Rightarrow> bool" where
  "contains sub [] = (sub = [])"
| "contains sub (c # cs) = (starts_with sub (c # cs) \<or> contains sub cs)"

text \<open>\<^verbatim>\<open>s.split()\<close>: the maximal runs of non-whitespace characters, in order.\<close>

fun split_from :: "tables \<Rightarrow> py_str \<Rightarrow> py_str \<Rightarrow> py_str list" where
  "split_from T cur [] = (if cur = [] then [] else [cur])"
| "split_from T cur (c # cs) =
     (if isspace T c then (if cur = [] then split_from T [] cs else cur # split_from T [] cs)
      else split_from T (cur @ [c]) cs)"

definition split_ws :: "tables \<Rightarrow> py_str \<Rightarrow> py_str list" where
  "split_ws T s = split_from T [] s"

subsection \<open>Decimal numerals\<close>

text \<open>\<^verbatim>\<open>str(n)\<close> of a non-negative integer.\<close>

fun str_nat :: "nat \<Rightarrow> py_str" where
  "str_nat n = (if n < 10 then [48 + n] else str_nat (n div 10) @ [48 + n mod 10])"

declare str_nat.simps [simp del]

text \<open>The number a run of decimal digits denotes; \<open>None\<close> when a character is no digit.\<close>

definition digits_value :: "tables \<Rightarrow> py_str \<Rightarrow> nat option" where
  "digits_value T s =
     (if s \<noteq> [] \<and> list_all (is_decimal T) s
      then Some (foldl (\<lambda>a c. 10 * a + the (decimal_value T c)) 0 s) else None)"

definition within_limit :: "tables \<Rightarrow> nat \<Rightarrow> bool" where
  "within_limit T k = (case t_max_digits T of None \<Rightarrow> True | Some extra \<Rightarrow> k \<le> 640 + extra)"

text \<open>
  \<^verbatim>\<open>int(s)\<close>: surrounding whitespace is dropped (of the ASCII whitespace only tab to
  carriage return and the space), one sign is allowed, single underscores may separate
  digits, and the number of digits is within the interpreter's limit. \<open>None\<close> is the
  \<^verbatim>\<open>ValueError\<close>.
\<close>

definition int_space :: "tables \<Rightarrow> nat \<Rightarrow> bool" where
  "int_space T c = (if c < 128 then c \<in> set [9, 10, 11, 12, 13, 32] else t_isspace T c)"

fun split_on :: "nat \<Rightarrow> py_str \<Rightarrow> py_str \<Rightarrow> py_str list" where
  "split_on sep cur [] = [cur]"
| "split_on sep cur (c # cs) =
     (if c = sep then cur # split_on sep [] cs else split_on sep (cur @ [c]) cs)"

definition py_int_unsigned :: "tables \<Rightarrow> py_str \<Rightarrow> nat option" where
  "py_int_unsigned T s =
     (let digits = filter (\<lambda>c. c \<noteq> 95) s
      in if list_all (\<lambda>p. digits_value T p \<noteq> None) (split_on 95 [] s) \<and>
            within_limit T (length digits)
         then digits_value T digits else None)"

definition py_int :: "tables \<Rightarrow> py_str \<Rightarrow> int option" where
  "py_int T v =
     (case rev (dropWhile (int_space T) (rev (dropWhile (int_space T) v))) of
        [] \<Rightarrow> None
      | c # cs \<Rightarrow>
          if c = 45 then map_option (\<lambda>n. - int n) (py_int_unsigned T cs)
          else if c = 43 then map_option int (py_int_unsigned T cs)
          else map_option int (py_int_unsigned T (c # cs)))"

section \<open>Validators\<close>

text \<open>
  \<^verbatim>\<open>re.match(r"^A\d+$", s)\<close>: the letter A and one or more decimal digits; \<^verbatim>\<open>$\<close> also
  matches just before a newline that ends the string.
\<close>

definition chop_newline :: "py_str \<Rightarrow> py_str" where
  "chop_newline s = (if s \<noteq> [] \<and> last s = 10 then butlast s else s)"

definition match_id :: "tables \<Rightarrow> py_str \<Rightarrow> bool" where
  "match_id T s =
     (case s of [] \<Rightarrow> False
      | c # cs \<Rightarrow> c = 65 \<and> chop_newline cs \<noteq> [] \<and> list_all (is_decimal T) (chop_newline cs))"

definition valid_id :: "tables \<Rightarrow> py_str \<Rightarrow> bool" where
  "valid_id T v = match_id T (strip T v)"

text \<open>
  \<^verbatim>\<open>^[^@\s]+@[^@\s]+\.[^@\s]{2,}$\<close>: one \<^verbatim>\<open>@\<close>, no whitespace, a non-empty local part,
  and after the \<^verbatim>\<open>@\<close> some dot with at least one character before it and at least two
  after it (the two outer classes admit dots as well).
\<close>

definition email_char :: "tables \<Rightarrow> nat \<Rightarrow> bool" where
  "email_char T c = (c \<noteq> 64 \<and> \<not> isspace T c)"

definition match_email :: "tables \<Rightarrow> py_str \<Rightarrow> bool" where
  "match_email T s =
     (let loc = takeWhile (\<lambda>c. c \<noteq> 64) s;
          rest = dropWhile (\<lambda>c. c \<noteq> 64) s
      in loc \<noteq> [] \<and> list_all (email_char T) loc \<and> rest \<noteq> [] \<and>
         (let dom = chop_newline (tl rest)
          in list_all (email_char T) dom \<and>
             list_ex (\<lambda>i. dom ! i = 46 \<and> 1 \<le> i \<and> i + 3 \<le> length dom) [0..<length dom]))"

definition valid_email :: "tables \<Rightarrow> py_str \<Rightarrow> bool" where
  "valid_email T v = match_email T (strip T v)"

definition valid_phone :: "tables \<Rightarrow> py_str \<Rightarrow> bool" where
  "valid_phone T v =
     (let s = strip T v in isdigit T s \<and> length s = 10 \<and> hd s \<in> set (py ''6789''))"

definition valid_aadhaar :: "tables \<Rightarrow> py_str \<Rightarrow> bool" where
  "valid_aadhaar T v = (let s = strip T v in isdigit T s \<and> length s = 12)"

text \<open>\<^verbatim>\<open>^[A-Z]{5}[0-9]{4}[A-Z]$\<close> on the upper-cased, stripped value.\<close>

definition match_pan :: "py_str \<Rightarrow> bool" where
  "match_pan s =
     (let t = chop_newline s
      in length t = 10 \<and> list_all is_upper_char (take 5 t) \<and>
         list_all is_ascii_digit (take 4 (drop 5 t)) \<and> is_upper_char (t ! 9))"

definition valid_pan :: "tables \<Rightarrow> py_str \<Rightarrow> bool" where
  "valid_pan T v = match_pan (upper T (strip T v))"

definition valid_loan_amount :: "tables \<Rightarrow> py_str \<Rightarrow> bool" where
  "valid_loan_amount T v =
     (case py_int T (strip T v) of None \<Rightarrow> False | Some n \<Rightarrow> 500000 \<le> n \<and> n \<le> 10000000)"

definition valid_monthly_income :: "tables \<Rightarrow> py_str \<Rightarrow> bool" where
  "valid_monthly_income T v =
     (case py_int T (strip T v) of None \<Rightarrow> False | Some n \<Rightarrow> 25000 \<le> n \<and> n \<le> 1000000)"

text \<open>\<^verbatim>\<open>^[A-Za-z ]+$\<close>, at least two words, every word of two characters or more.\<close>

definition name_char :: "nat \<Rightarrow> bool" where
  "name_char c = (is_alpha_char c \<or> c = 32)"

definition valid_name :: "tables \<Rightarrow> py_str \<Rightarrow> bool" where
  "valid_name T v =
     (let parts = split_ws T (strip T v); s = chop_newline (strip T v)
      in 2 \<le> length parts \<and> (s \<noteq> [] \<and> list_all name_char s) \<and>
         list_all (\<lambda>p. 2 \<le> length p) parts)"

definition LOAN_PURPOSES :: "py_str list" where
  "LOAN_PURPOSES = map py [''education'', ''home renovation'', ''car'',
                           ''business'', ''personal'', ''medical'']"

definition EMPLOYMENT_TYPES :: "py_str list" where
  "EMPLOYMENT_TYPES = map py [''salaried'', ''self employed'', ''unemployed'']"

definition valid_loan_purpose :: "tables \<Rightarrow> py_str \<Rightarrow> bool" where
  "valid_loan_purpose T v = (lower T (strip T v) \<in> set LOAN_PURPOSES)"

definition valid_employment_type :: "tables \<Rightarrow> py_str \<Rightarrow> bool" where
  "valid_employment_type T v = (lower T (strip T v) \<in> set EMPLOYMENT_TYPES)"

section \<open>Helpers\<close>

definition placeholders :: "py_str list" where
  "placeholders = map py [''nan'', ''None'', ''NaT'', ''none'', ''null'', '''']"

definition is_null :: "tables \<Rightarrow> py_str \<Rightarrow> bool" where
  "is_null T v = (strip T v \<in> set placeholders)"

text \<open>\<^verbatim>\<open>str(v)\<close> of a cell: a missing cell prints as \<^verbatim>\<open>nan\<close>.\<close>

definition str_cell :: "cell \<Rightarrow> py_str" where
  "str_cell v = (case v of None \<Rightarrow> py ''nan'' | Some s \<Rightarrow> s)"

section \<open>Identifier allocator\<close>

text \<open>
  \<^verbatim>\<open>_used_ids\<close> is the process-wide set of identifier numbers of the batch; it is passed
  and returned explicitly. The store read of \<^verbatim>\<open>next_id\<close> is a parameter: \<open>Some rows\<close>
  is the list of stored \<^verbatim>\<open>applicant_id\<close> values, \<open>None\<close> a read that raised. The set
  comprehension over the rows is inside the \<^verbatim>\<open>try\<close>, so a row whose number \<^verbatim>\<open>int\<close>
  rejects leaves the empty set as well. The pattern is \<^verbatim>\<open>^A[0-9]+$\<close>, with ASCII digits.
\<close>

definition match_stored_id :: "py_str \<Rightarrow> bool" where
  "match_stored_id s =
     (case s of [] \<Rightarrow> False
      | c # cs \<Rightarrow> c = 65 \<and> chop_newline cs \<noteq> [] \<and> list_all is_ascii_digit (chop_newline cs))"

definition db_ids :: "tables \<Rightarrow> py_str list option \<Rightarrow> nat fset" where
  "db_ids T db =
     (case db of
        None \<Rightarrow> {||}
      | Some rows \<Rightarrow>
          (case those (map (\<lambda>r. py_int T (tl r)) (filter match_stored_id rows)) of
             None \<Rightarrow> {||}
           | Some ns \<Rightarrow> fset_of_list (map nat ns)))"

function first_free :: "nat fset \<Rightarrow> nat \<Rightarrow> nat" where
  "first_free A n = (if n |\<in>| A then first_free A (Suc n) else n)"
  by pat_completeness auto
termination
proof (relation "measure (\<lambda>(A, n). Suc (fMax A) - n)")
  show "wf (measure (\<lambda>(A, n). Suc (fMax A) - n))" by simp
next
  fix A :: "nat fset" and n :: nat
  assume "n |\<in>| A"
  then have "n \<le> fMax A" by simp
  then show "((A, Suc n), (A, n)) \<in> measure (\<lambda>(A, n). Suc (fMax A) - n)" by simp
qed

declare first_free.simps [simp del]

definition next_id :: "tables \<Rightarrow> py_str list option \<Rightarrow> nat fset \<Rightarrow> py_str \<times> nat fset" where
  "next_id T db used =
     (let all_used = db_ids T db |\<union>| used;
          start = (if all_used \<noteq> {||} then fMax all_used + 1 else 101);
          n = first_free all_used start
      in (py ''A'' @ str_nat n, finsert n used))"

text \<open>
  The numbers seen, in the words of the specification: the numeric suffix of an
  identifier is the number that the decimal digits after the letter \<^verbatim>\<open>A\<close> denote, and
  the numbers seen are the suffixes of the stored identifiers and the batch set.
\<close>

definition digits_nat :: "py_str \<Rightarrow> nat" where
  "digits_nat ds = foldl (\<lambda>a d. 10 * a + (d - 48)) 0 ds"

definition numeric_suffix :: "py_str \<Rightarrow> nat option" where
  "numeric_suffix s =
     (case s of [] \<Rightarrow> None
      | c # ds \<Rightarrow> if c = 65 \<and> ds \<noteq> [] \<and> list_all is_ascii_digit ds
                 then Some (digits_nat ds) else None)"

definition seen_numbers :: "py_str list \<Rightarrow> nat fset \<Rightarrow> nat fset" where
  "seen_numbers stored used = fset_of_list (List.map_filter numeric_suffix stored) |\<union>| used"

text \<open>The number above a set of numbers seen: one more than the maximum, 101 when there is none.\<close>

definition issued :: "nat fset \<Rightarrow> nat" where
  "issued A = (if A = {||} then 101 else fMax A + 1)"

section \<open>Decoding the mapping oracle's response\<close>

text \<open>
  A JSON value as \<^verbatim>\<open>r.json()\<close> and \<^verbatim>\<open>json.loads\<close> build it; an object is the list of
  its items (distinct keys, in order), a number is kept as its literal. The round trip of
  \<^verbatim>\<open>requests.post\<close> is a parameter of the model: it fails in transport, delivers a body
  that is not JSON, or delivers a JSON value. \<^verbatim>\<open>json.loads\<close> is a parameter as well,
  with \<open>None\<close> for a string it rejects.
\<close>

datatype json = JNull | JBool bool | JNum py_str | JStr py_str
  | JArr "json list" | JObj "(py_str \<times> json) list"

datatype response = Transport_failure | Not_json | Body json

datatype py_error = RequestException | JSONDecodeError | TypeError | KeyError | ValueError
  | FileError | DatabaseError

text \<open>\<^verbatim>\<open>key in raw\<close>: a key of an object, an element of a list, a substring of a string.\<close>

definition json_has :: "py_str \<Rightarrow> json \<Rightarrow> py_error + bool" where
  "json_has key raw =
     (case raw of
        JObj kvs \<Rightarrow> Inr (key \<in> set (map fst kvs))
      | JArr xs \<Rightarrow> Inr (JStr key \<in> set xs)
      | JStr s \<Rightarrow> Inr (contains key s)
      | _ \<Rightarrow> Inl TypeError)"

text \<open>\<^verbatim>\<open>raw[key]\<close> with a string key.\<close>

definition json_get :: "py_str \<Rightarrow> json \<Rightarrow> py_error + json" where
  "json_get key raw =
     (case raw of
        JObj kvs \<Rightarrow> (case map_of kvs key of Some v \<Rightarrow> Inr v | None \<Rightarrow> Inl KeyError)
      | _ \<Rightarrow> Inl TypeError)"

text \<open>Case 1 of \<^verbatim>\<open>call_llm\<close>: the mapping below \<^verbatim>\<open>result\<close>.\<close>

definition nested_mapping :: "json \<Rightarrow> json \<Rightarrow> json" where
  "nested_mapping mp res =
     (case res of
        JObj kvs \<Rightarrow>
          (case map_of kvs (py ''mapping'') of
             Some m \<Rightarrow> m
           | None \<Rightarrow> (case map_of kvs (py ''result'') of Some m \<Rightarrow> m | None \<Rightarrow> mp))
      | _ \<Rightarrow> mp)"

definition parse_if_string :: "(py_str \<Rightarrow> json option) \<Rightarrow> json \<Rightarrow> json" where
  "parse_if_string loads mp =
     (case mp of
        JStr s \<Rightarrow> (case loads s of Some j \<Rightarrow> j | None \<Rightarrow> JObj [])
      | _ \<Rightarrow> mp)"

definition ensure_dict :: "json \<Rightarrow> (py_str \<times> json) list" where
  "ensure_dict mp = (case mp of JObj kvs \<Rightarrow> kvs | _ \<Rightarrow> [])"

definition decode :: "(py_str \<Rightarrow> json option) \<Rightarrow> json \<Rightarrow> py_error + (py_str \<times> json) list" where
  "decode loads raw =
     (case json_has (py ''result'') raw of
        Inl e \<Rightarrow> Inl e
      | Inr has_result \<Rightarrow>
          (case (if has_result
                 then map_sum id (nested_mapping (JObj [])) (json_get (py ''result'') raw)
                 else Inr (JObj [])) of
             Inl e \<Rightarrow> Inl e
           | Inr mp1 \<Rightarrow>
               (case json_has (py ''mapping'') raw of
                  Inl e \<Rightarrow> Inl e
                | Inr has_mapping \<Rightarrow>
                    (case (if has_mapping then json_get (py ''mapping'') raw else Inr mp1) of
                       Inl e \<Rightarrow> Inl e
                     | Inr mp2 \<Rightarrow>
                         Inr (filter (\<lambda>(k, v). k \<noteq> py ''is_valid'')
                                (ensure_dict (parse_if_string loads mp2)))))))"

definition call_llm :: "(py_str \<Rightarrow> json option) \<Rightarrow> response \<Rightarrow> py_error + (py_str \<times> json) list" where
  "call_llm loads r =
     (case r of
        Transport_failure \<Rightarrow> Inl RequestException
      | Not_json \<Rightarrow> Inl JSONDecodeError
      | Body raw \<Rightarrow> decode loads raw)"

text \<open>
  The decoding in the words of the specification, to compare \<open>call_llm\<close> with: where the
  mapping of an object body is looked for, and what a value found there stands for.
\<close>

definition mapping_location :: "(py_str \<times> json) list \<Rightarrow> json option" where
  "mapping_location kvs =
     (case map_of kvs (py ''mapping'') of
        Some m \<Rightarrow> Some m
      | None \<Rightarrow>
          (case map_of kvs (py ''result'') of
             Some (JObj res) \<Rightarrow>
               (case map_of res (py ''mapping'') of
                  Some m \<Rightarrow> Some m
                | None \<Rightarrow> map_of res (py ''result''))
           | _ \<Rightarrow> None))"

fun mapping_of_value :: "(py_str \<Rightarrow> json option) \<Rightarrow> json option \<Rightarrow> (py_str \<times> json) list" where
  "mapping_of_value loads (Some (JObj m)) = m"
| "mapping_of_value loads (Some (JStr s)) = (case loads s of Some (JObj m) \<Rightarrow> m | _ \<Rightarrow> [])"
| "mapping_of_value loads _ = []"

section \<open>Frames and canonical rows\<close>

text \<open>
  The uploaded sheet (\<^verbatim>\<open>original_df\<close>) is a header of column names and rows of cells,
  one cell per column. After \<^verbatim>\<open>ensure_columns\<close> the working frame has the ten canonical
  columns, so a row of it is a record of ten cells.
\<close>

record frame =
  columns :: "py_str list"
  rows :: "cell list list"

record applicant =
  applicant_id :: cell
  applicant_name :: cell
  phone_number :: cell
  email :: cell
  aadhaar_number :: cell
  pan_number :: cell
  loan_amount :: cell
  loan_purpose :: cell
  employment_type :: cell
  monthly_income :: cell

definition required :: "py_str list" where
  "required = map py [''applicant_id'', ''applicant_name'', ''phone_number'', ''email'',
                      ''aadhaar_number'', ''pan_number'', ''loan_amount'',
                      ''loan_purpose'', ''employment_type'', ''monthly_income'']"

text \<open>
  \<^verbatim>\<open>df.rename(columns=mp)\<close>: a column that is a key of the mapping takes the mapped
  value as its label, any other column keeps its name. The oracle's values are JSON values,
  so a label is a JSON value; only a string label can equal a canonical field.
\<close>

definition rename_label :: "(py_str \<times> json) list \<Rightarrow> py_str \<Rightarrow> json" where
  "rename_label mp c = (case map_of mp c of Some l \<Rightarrow> l | None \<Rightarrow> JStr c)"

definition labels :: "(py_str \<times> json) list \<Rightarrow> frame \<Rightarrow> json list" where
  "labels mp original = map (rename_label mp) (columns original)"

text \<open>
  Whether some canonical field is the label of two columns. Then \<^verbatim>\<open>df[required]\<close> has
  more than ten columns and \<^verbatim>\<open>df.at\<close> is no single cell; what pandas makes of the
  endpoint in that case is a parameter of the model (\<open>env_duplicate_columns\<close> below).
\<close>

definition duplicated_field :: "json list \<Rightarrow> bool" where
  "duplicated_field ls = list_ex (\<lambda>f. 1 < length (filter (\<lambda>l. l = JStr f) ls)) required"

text \<open>\<^verbatim>\<open>ensure_columns\<close>: a canonical field no column carries is a column of missing cells.\<close>

definition field_cell :: "json list \<Rightarrow> cell list \<Rightarrow> string \<Rightarrow> cell" where
  "field_cell ls row f =
     (case map_of (zip ls row) (JStr (py f)) of Some c \<Rightarrow> c | None \<Rightarrow> None)"

definition mapped_row :: "json list \<Rightarrow> cell list \<Rightarrow> applicant" where
  "mapped_row ls row =
     \<lparr> applicant_id = field_cell ls row ''applicant_id'',
       applicant_name = field_cell ls row ''applicant_name'',
       phone_number = field_cell ls row ''phone_number'',
       email = field_cell ls row ''email'',
       aadhaar_number = field_cell ls row ''aadhaar_number'',
       pan_number = field_cell ls row ''pan_number'',
       loan_amount = field_cell ls row ''loan_amount'',
       loan_purpose = field_cell ls row ''loan_purpose'',
       employment_type = field_cell ls row ''employment_type'',
       monthly_income = field_cell ls row ''monthly_income'' \<rparr>"

definition apply_mapping :: "(py_str \<times> json) list \<Rightarrow> frame \<Rightarrow> applicant list" where
  "apply_mapping mp original = map (mapped_row (labels mp original)) (rows original)"

section \<open>Pass 1: invalidation\<close>

definition wipe :: "tables \<Rightarrow> (py_str \<Rightarrow> bool) \<Rightarrow> cell \<Rightarrow> cell" where
  "wipe T validator c =
     (let val = strip T (str_cell c) in if is_null T val \<or> \<not> validator val then None else c)"

text \<open>
  One row of \<^verbatim>\<open>invalidate\<close>: every field of \<^verbatim>\<open>FIELD_VALIDATORS\<close> except the two of
  \<^verbatim>\<open>skip\<close>.
\<close>

definition invalidate_row :: "tables \<Rightarrow> applicant \<Rightarrow> applicant" where
  "invalidate_row T r =
     r\<lparr> applicant_id := wipe T (valid_id T) (applicant_id r),
        applicant_name := wipe T (valid_name T) (applicant_name r),
        phone_number := wipe T (valid_phone T) (phone_number r),
        email := wipe T (valid_email T) (email r),
        aadhaar_number := wipe T (valid_aadhaar T) (aadhaar_number r),
        pan_number := wipe T (valid_pan T) (pan_number r),
        loan_purpose := wipe T (valid_loan_purpose T) (loan_purpose r),
        employment_type := wipe T (valid_employment_type T) (employment_type r) \<rparr>"

definition invalidate :: "tables \<Rightarrow> applicant list \<Rightarrow> applicant list" where
  "invalidate T df = map (invalidate_row T) df"

section \<open>Pass 2: repair\<close>

subsection \<open>Step 1: the raw values of a row\<close>

text \<open>
  \<^verbatim>\<open>str(int(float(val)))\<close> is floating point and stays a parameter \<open>sci\<close> of the model
  (\<open>None\<close> when it raises, and the string is then kept).
\<close>

definition normalize_value :: "tables \<Rightarrow> (py_str \<Rightarrow> py_str option) \<Rightarrow> py_str \<Rightarrow> py_str" where
  "normalize_value T sci v =
     (let val = strip T v
      in if contains (py ''e+'') (lower T val) then (case sci val of Some t \<Rightarrow> t | None \<Rightarrow> val)
         else val)"

definition raw_values :: "tables \<Rightarrow> (py_str \<Rightarrow> py_str option) \<Rightarrow> cell list \<Rightarrow> py_str list" where
  "raw_values T sci orig_row =
     map (\<lambda>v. normalize_value T sci (str_cell v))
         (filter (\<lambda>v. \<not> is_null T (str_cell v)) orig_row)"

subsection \<open>Step 2: classification\<close>

record bucket =
  bk_id :: "py_str list"
  bk_email :: "py_str list"
  bk_phone :: "py_str list"
  bk_aadhaar :: "py_str list"
  bk_pan :: "py_str list"
  bk_name :: "py_str list"
  bk_employment :: "py_str list"
  bk_purpose :: "py_str list"
  bk_numeric :: "nat list"

definition empty_bucket :: bucket where
  "empty_bucket = \<lparr> bk_id = [], bk_email = [], bk_phone = [], bk_aadhaar = [], bk_pan = [],
                     bk_name = [], bk_employment = [], bk_purpose = [], bk_numeric = [] \<rparr>"

text \<open>
  The body of the classification loop: the first test that holds files the value.
  \<^verbatim>\<open>int(v)\<close> raises \<^verbatim>\<open>ValueError\<close> on a value of digits that are not all decimal, or
  too many; no sign passes \<^verbatim>\<open>isdigit\<close>, so the number is not negative.
\<close>

definition classify :: "tables \<Rightarrow> py_str \<Rightarrow> bucket \<Rightarrow> py_error + bucket" where
  "classify T v b =
     (let lv = lower T v
      in if valid_id T v then Inr (b\<lparr>bk_id := bk_id b @ [v]\<rparr>)
         else if valid_email T v then Inr (b\<lparr>bk_email := bk_email b @ [v]\<rparr>)
         else if valid_pan T v then Inr (b\<lparr>bk_pan := bk_pan b @ [upper T v]\<rparr>)
         else if valid_aadhaar T v then Inr (b\<lparr>bk_aadhaar := bk_aadhaar b @ [v]\<rparr>)
         else if valid_phone T v then Inr (b\<lparr>bk_phone := bk_phone b @ [v]\<rparr>)
         else if lv \<in> set EMPLOYMENT_TYPES
           then Inr (b\<lparr>bk_employment := bk_employment b @ [title T lv]\<rparr>)
         else if lv \<in> set LOAN_PURPOSES
           then Inr (b\<lparr>bk_purpose := bk_purpose b @ [title T lv]\<rparr>)
         else if isdigit T v
           then (case py_int T v of
                   None \<Rightarrow> Inl ValueError
                 | Some n \<Rightarrow> Inr (b\<lparr>bk_numeric := bk_numeric b @ [nat n]\<rparr>))
         else if 3 \<le> length v \<and> \<not> list_ex (is_digit_char T) v
           then Inr (b\<lparr>bk_name := bk_name b @ [title T v]\<rparr>)
         else Inr b)"

fun classify_all :: "tables \<Rightarrow> bucket \<Rightarrow> py_str list \<Rightarrow> py_error + bucket" where
  "classify_all T b [] = Inr b"
| "classify_all T b (v # vs) =
     (case classify T v b of Inl e \<Rightarrow> Inl e | Inr b' \<Rightarrow> classify_all T b' vs)"

subsection \<open>Step 4: the numeric split\<close>

text \<open>
  \<open>loan\<close> and \<open>income\<close> start as \<^verbatim>\<open>None\<close>; \<^verbatim>\<open>not income\<close> and \<^verbatim>\<open>if income:\<close> are
  Python truth tests, which \<^verbatim>\<open>None\<close> and \<^verbatim>\<open>0\<close> both fail.
\<close>

definition truthy :: "nat option \<Rightarrow> bool" where
  "truthy x = (case x of None \<Rightarrow> False | Some n \<Rightarrow> n \<noteq> 0)"

fun split_step :: "tables \<Rightarrow> nat option \<times> nat option \<Rightarrow> nat \<Rightarrow> nat option \<times> nat option" where
  "split_step T (loan, income) n =
     (if valid_phone T (str_nat n) then (loan, income)
      else if n < 500000 \<and> \<not> truthy income then (loan, Some n)
      else if n > 500000 \<and> \<not> truthy loan then (Some n, income)
      else (loan, income))"

definition numeric_split :: "tables \<Rightarrow> nat list \<Rightarrow> nat option \<times> nat option" where
  "numeric_split T numeric = foldl (split_step T) (None, None) (sort numeric)"

definition assign_number :: "nat option \<Rightarrow> cell \<Rightarrow> cell" where
  "assign_number x old = (case x of None \<Rightarrow> old | Some n \<Rightarrow> if n \<noteq> 0 then Some (str_nat n) else old)"

subsection \<open>Step 3 and the row loop\<close>

definition assign_first :: "py_str list \<Rightarrow> cell \<Rightarrow> cell" where
  "assign_first xs old = (case xs of [] \<Rightarrow> old | x # _ \<Rightarrow> Some x)"

text \<open>
  One pass of the row loop. \<^verbatim>\<open>int(df.at[i, "applicant_id"][1:])\<close> raises when the
  identifier has more digits than \<^verbatim>\<open>int\<close> admits.
\<close>

definition repair_row ::
  "tables \<Rightarrow> (py_str \<Rightarrow> py_str option) \<Rightarrow> py_str list option \<Rightarrow> nat fset \<Rightarrow> cell list
     \<Rightarrow> applicant \<Rightarrow> py_error + applicant \<times> nat fset" where
  "repair_row T sci db used orig_row r =
     (case classify_all T empty_bucket (raw_values T sci orig_row) of
        Inl e \<Rightarrow> Inl e
      | Inr b \<Rightarrow>
          (let (aid, used1) = (case bk_id b of [] \<Rightarrow> next_id T db used | v # _ \<Rightarrow> (v, used));
               (loan, income) = numeric_split T (bk_numeric b)
           in case py_int T (tl aid) of
                None \<Rightarrow> Inl ValueError
              | Some k \<Rightarrow>
                  Inr (r\<lparr> applicant_id := Some aid,
                          email := assign_first (bk_email b) (email r),
                          pan_number := assign_first (bk_pan b) (pan_number r),
                          aadhaar_number := assign_first (bk_aadhaar b) (aadhaar_number r),
                          phone_number := assign_first (bk_phone b) (phone_number r),
                          employment_type := assign_first (bk_employment b) (employment_type r),
                          loan_purpose := assign_first (bk_purpose b) (loan_purpose r),
                          applicant_name := assign_first (bk_name b) (applicant_name r),
                          monthly_income := assign_number income (monthly_income r),
                          loan_amount := assign_number loan (loan_amount r) \<rparr>,
                       finsert (nat k) used1)))"

text \<open>The loop before the rows: every valid identifier of the mapped frame is registered.\<close>

fun register_ids :: "tables \<Rightarrow> nat fset \<Rightarrow> py_str list \<Rightarrow> py_error + nat fset" where
  "register_ids T used [] = Inr used"
| "register_ids T used (aid # aids) =
     (if valid_id T (strip T aid)
      then (case py_int T (tl (strip T aid)) of
              None \<Rightarrow> Inl ValueError
            | Some k \<Rightarrow> register_ids T (finsert (nat k) used) aids)
      else register_ids T used aids)"

fun repair_rows ::
  "tables \<Rightarrow> (py_str \<Rightarrow> py_str option) \<Rightarrow> py_str list option \<Rightarrow> nat fset
     \<Rightarrow> (applicant \<times> cell list) list \<Rightarrow> py_error + applicant list \<times> nat fset" where
  "repair_rows T sci db used [] = Inr ([], used)"
| "repair_rows T sci db used ((r, orig_row) # rest) =
     (case repair_row T sci db used orig_row r of
        Inl e \<Rightarrow> Inl e
      | Inr (r', used') \<Rightarrow>
          (case repair_rows T sci db used' rest of
             Inl e \<Rightarrow> Inl e
           | Inr (rs, used'') \<Rightarrow> Inr (r' # rs, used'')))"

text \<open>
  \<^verbatim>\<open>field_to_excel = {v: k for k, v in col_map.items()}\<close> uses the values of the mapping
  as keys and raises \<^verbatim>\<open>TypeError\<close> when one of them is a list or an object.
\<close>

definition hashable :: "json \<Rightarrow> bool" where
  "hashable l = (case l of JArr _ \<Rightarrow> False | JObj _ \<Rightarrow> False | _ \<Rightarrow> True)"

definition repair ::
  "tables \<Rightarrow> (py_str \<Rightarrow> py_str option) \<Rightarrow> py_str list option \<Rightarrow> nat fset \<Rightarrow> applicant list
     \<Rightarrow> frame \<Rightarrow> (py_str \<times> json) list \<Rightarrow> py_error + applicant list \<times> nat fset" where
  "repair T sci db used df original_df col_map =
     (if \<not> list_all (\<lambda>(k, v). hashable v) col_map then Inl TypeError
      else (case register_ids T used (List.map_filter applicant_id df) of
              Inl e \<Rightarrow> Inl e
            | Inr used' \<Rightarrow> repair_rows T sci db used' (zip df (rows original_df))))"

section \<open>Upsert\<close>

text \<open>
  The table \<^verbatim>\<open>loan_applicants\<close> is a map from its primary key to the stored row and the
  row's \<^verbatim>\<open>created_at\<close>. \<^verbatim>\<open>upsert\<close> runs inside one \<^verbatim>\<open>with engine.begin()\<close> block,
  which commits when the block ends and rolls back when a statement raises; the loop
  therefore works on the transaction's view of the table, and \<open>upsert\<close> returns the
  table as committed. Whether the engine raises on the statements of a record is the
  parameter \<open>rejects\<close>; \<open>clock\<close> gives \<^verbatim>\<open>NOW()\<close> of the statement number.
\<close>

type_synonym store = "py_str \<rightharpoonup> applicant \<times> nat"

definition null_cell :: "tables \<Rightarrow> cell \<Rightarrow> cell" where
  "null_cell T v = (if is_null T (str_cell v) then None else v)"

text \<open>The dictionary \<open>d\<close> of statement parameters.\<close>

definition params :: "tables \<Rightarrow> applicant \<Rightarrow> applicant" where
  "params T r =
     \<lparr> applicant_id = null_cell T (applicant_id r),
       applicant_name = null_cell T (applicant_name r),
       phone_number = null_cell T (phone_number r),
       email = null_cell T (email r),
       aadhaar_number = null_cell T (aadhaar_number r),
       pan_number = null_cell T (pan_number r),
       loan_amount = null_cell T (loan_amount r),
       loan_purpose = null_cell T (loan_purpose r),
       employment_type = null_cell T (employment_type r),
       monthly_income = null_cell T (monthly_income r) \<rparr>"

text \<open>
  A null key matches no row in the \<^verbatim>\<open>SELECT\<close>, and the \<^verbatim>\<open>INSERT\<close> of a null primary
  key raises.
\<close>

fun upsert_rows ::
  "tables \<Rightarrow> (applicant \<Rightarrow> bool) \<Rightarrow> (nat \<Rightarrow> nat) \<Rightarrow> store \<Rightarrow> nat \<times> nat \<Rightarrow> applicant list
     \<Rightarrow> py_error + (nat \<times> nat) \<times> store" where
  "upsert_rows T rejects clock st (ins, upd) [] = Inr ((ins, upd), st)"
| "upsert_rows T rejects clock st (ins, upd) (r # rs) =
     (let d = params T r
      in if rejects d then Inl DatabaseError
         else (case applicant_id d of
                 None \<Rightarrow> Inl DatabaseError
               | Some k \<Rightarrow>
                   (case st k of
                      Some (old, created) \<Rightarrow>
                        upsert_rows T rejects clock (st(k \<mapsto> (d, created))) (ins, upd + 1) rs
                    | None \<Rightarrow>
                        upsert_rows T rejects clock (st(k \<mapsto> (d, clock (ins + upd))))
                          (ins + 1, upd) rs)))"

definition upsert ::
  "tables \<Rightarrow> (applicant \<Rightarrow> bool) \<Rightarrow> (nat \<Rightarrow> nat) \<Rightarrow> store \<Rightarrow> applicant list
     \<Rightarrow> (py_error + nat \<times> nat) \<times> store" where
  "upsert T rejects clock st df =
     (case upsert_rows T rejects clock st (0, 0) df of
        Inl e \<Rightarrow> (Inl e, st)
      | Inr (counts, st') \<Rightarrow> (Inr counts, st'))"

text \<open>
  The records on which a statement of the loop raises: the engine rejects the statement,
  or the key is null.
\<close>

definition bad_record :: "tables \<Rightarrow> (applicant \<Rightarrow> bool) \<Rightarrow> applicant \<Rightarrow> bool" where
  "bad_record T rejects r = (rejects (params T r) \<or> applicant_id (params T r) = None)"

section \<open>Endpoints\<close>

text \<open>
  What an endpoint call meets outside the program: the sheet \<^verbatim>\<open>pd.read_excel\<close> reads
  (\<open>None\<close> when it raises), whether \<^verbatim>\<open>create_table\<close> succeeds, the oracle's response,
  \<^verbatim>\<open>json.loads\<close>, the scientific-notation conversion, the stored identifiers that
  \<^verbatim>\<open>next_id\<close> reads, and the repaired frame pandas arrives at when two columns carry
  one canonical label.
\<close>

record env =
  env_file :: "frame option"
  env_create_table_ok :: bool
  env_oracle :: response
  env_loads :: "py_str \<Rightarrow> json option"
  env_sci :: "py_str \<Rightarrow> py_str option"
  env_db :: "py_str list option"
  env_duplicate_columns :: "(py_str \<times> json) list \<Rightarrow> frame \<Rightarrow> py_error + applicant list"

text \<open>
  The lines both endpoints share, from \<^verbatim>\<open>_used_ids.clear()\<close> to the call of
  \<^verbatim>\<open>repair\<close>: the mapping, and the repaired frame.
\<close>

definition process :: "tables \<Rightarrow> env \<Rightarrow> py_error + (py_str \<times> json) list \<times> applicant list" where
  "process T e =
     (case env_file e of
        None \<Rightarrow> Inl FileError
      | Some original_df \<Rightarrow>
          if \<not> env_create_table_ok e then Inl DatabaseError
          else (case call_llm (env_loads e) (env_oracle e) of
                  Inl err \<Rightarrow> Inl err
                | Inr mp \<Rightarrow>
                    if duplicated_field (labels mp original_df)
                    then map_sum id (Pair mp) (env_duplicate_columns e mp original_df)
                    else map_sum id (\<lambda>(df, used). (mp, df))
                           (repair T (env_sci e) (env_db e) {||}
                              (apply_mapping mp original_df) original_df mp)))"

text \<open>\<^verbatim>\<open>.fillna("").to_dict("records")\<close> of one row.\<close>

definition fillna :: "cell \<Rightarrow> py_str" where
  "fillna c = (case c of None \<Rightarrow> [] | Some s \<Rightarrow> s)"

definition to_record :: "applicant \<Rightarrow> (py_str \<times> py_str) list" where
  "to_record r =
     [(py ''applicant_id'', fillna (applicant_id r)),
      (py ''applicant_name'', fillna (applicant_name r)),
      (py ''phone_number'', fillna (phone_number r)),
      (py ''email'', fillna (email r)),
      (py ''aadhaar_number'', fillna (aadhaar_number r)),
      (py ''pan_number'', fillna (pan_number r)),
      (py ''loan_amount'', fillna (loan_amount r)),
      (py ''loan_purpose'', fillna (loan_purpose r)),
      (py ''employment_type'', fillna (employment_type r)),
      (py ''monthly_income'', fillna (monthly_income r))]"

record validate_response =
  status :: py_str
  mapping :: "(py_str \<times> json) list"
  preview :: "(py_str \<times> py_str) list list"

definition validate :: "tables \<Rightarrow> env \<Rightarrow> py_error + validate_response" where
  "validate T e =
     (case process T e of
        Inl err \<Rightarrow> Inl err
      | Inr (mp, df) \<Rightarrow>
          Inr \<lparr> status = py ''validated'', mapping = mp,
                preview = map to_record (take 20 df) \<rparr>)"

record upload_response =
  upload_status :: py_str
  inserted :: nat
  updated :: nat

definition upload ::
  "tables \<Rightarrow> env \<Rightarrow> (applicant \<Rightarrow> bool) \<Rightarrow> (nat \<Rightarrow> nat) \<Rightarrow> store
     \<Rightarrow> (py_error + upload_response) \<times> store" where
  "upload T e rejects clock st =
     (case process T e of
        Inl err \<Rightarrow> (Inl err, st)
      | Inr (mp, df) \<Rightarrow>
          (case upsert T rejects clock st df of
             (Inl err, st') \<Rightarrow> (Inl err, st')
           | (Inr (ins, upd), st') \<Rightarrow>
               (Inr \<lparr> upload_status = py ''success'', inserted = ins, updated = upd \<rparr>, st')))"

text \<open>
  The pipeline the comments of the source announce, with Pass 1 between the mapping and
  the repair. No endpoint runs it; it is stated here to compare \<open>process\<close> with it.
\<close>

definition process_two_pass ::
  "tables \<Rightarrow> env \<Rightarrow> py_error + (py_str \<times> json) list \<times> applicant list" where
  "process_two_pass T e =
     (case env_file e of
        None \<Rightarrow> Inl FileError
      | Some original_df \<Rightarrow>
          if \<not> env_create_table_ok e then Inl DatabaseError
          else (case call_llm (env_loads e) (env_oracle e) of
                  Inl err \<Rightarrow> Inl err
                | Inr mp \<Rightarrow>
                    if duplicated_field (labels mp original_df)
                    then map_sum id (Pair mp) (env_duplicate_columns e mp original_df)
                    else map_sum id (\<lambda>(df, used). (mp, df))
                           (repair T (env_sci e) (env_db e) {||}
                              (invalidate T (apply_mapping mp original_df)) original_df mp)))"

section \<open>Example data\<close>

text \<open>
  A database for the concrete runs: beyond ASCII it knows the two whitespace characters
  (U+0085, U+00A0) and the three superscript digits (U+00B2, U+00B3, U+00B9) of Latin-1,
  which have no case and are no decimal digits, so the case conversions change the ASCII
  letters only; the digit limit is 4300. The runs below feed it ASCII text and these five
  characters only.
\<close>

definition example_tables :: tables where
  "example_tables =
     \<lparr> t_isspace = (\<lambda>c. c \<in> set [133, 160]),
       t_isdigit = (\<lambda>c. c \<in> set [178, 179, 185]),
       t_decimal = (\<lambda>c. None),
       t_lower = map lower_char, t_upper = map upper_char, t_title = title_from False,
       t_max_digits = Some 3660 \<rparr>"

text \<open>Two repaired records, an empty table, and two engines.\<close>

definition example_row_1 :: applicant where
  "example_row_1 =
     \<lparr> applicant_id = Some (py ''A101''), applicant_name = Some (py ''John Smith''),
       phone_number = Some (py ''9876543210''), email = Some (py ''john@x.com''),
       aadhaar_number = None, pan_number = None, loan_amount = None,
       loan_purpose = None, employment_type = None, monthly_income = Some (py ''450000'') \<rparr>"

definition example_row_2 :: applicant where
  "example_row_2 =
     \<lparr> applicant_id = Some (py ''A102''), applicant_name = Some (py ''Asha Rao''),
       phone_number = None, email = None, aadhaar_number = Some (py ''123412341234''),
       pan_number = None, loan_amount = Some (py ''600000''), loan_purpose = Some (py ''Car''),
       employment_type = None, monthly_income = None \<rparr>"

definition empty_store :: store where
  "empty_store = Map.empty"

definition never_rejects :: "applicant \<Rightarrow> bool" where
  "never_rejects d = False"

definition rejects_key :: "py_str \<Rightarrow> applicant \<Rightarrow> bool" where
  "rejects_key k d = (applicant_id d = Some k)"

text \<open>
  The text \<^verbatim>\<open>{"E": "email"}\<close>, by its code points, and a \<^verbatim>\<open>json.loads\<close> that accepts
  it and the texts of the empty object and of the empty list.
\<close>

definition mapping_text :: py_str where
  "mapping_text = [123, 34, 69, 34, 58, 32, 34, 101, 109, 97, 105, 108, 34, 125]"

definition example_loads :: "py_str \<Rightarrow> json option" where
  "example_loads s =
     (if s = py ''{}'' then Some (JObj [])
      else if s = py ''[]'' then Some (JArr [])
      else if s = mapping_text then Some (JObj [(py ''E'', JStr (py ''email''))])
      else None)"

text \<open>A response body with the mapping two levels below \<^verbatim>\<open>result\<close>.\<close>

definition example_mapping :: "(py_str \<times> json) list" where
  "example_mapping = [(py ''Name'', JStr (py ''applicant_name'')), (py ''is_valid'', JBool True)]"

definition example_inner :: "(py_str \<times> json) list" where
  "example_inner = [(py ''result'', JObj example_mapping)]"

definition example_body :: "(py_str \<times> json) list" where
  "example_body = [(py ''result'', JObj example_inner)]"

text \<open>
  A row without prior field values, a conversion that always raises, a frame for the
  case of duplicate labels, and an upload of one column \<^verbatim>\<open>E\<close> that the oracle maps to
  \<^verbatim>\<open>email\<close>, holding a cell that is no e-mail address.
\<close>

definition blank_row :: applicant where
  "blank_row =
     \<lparr> applicant_id = None, applicant_name = None, phone_number = None, email = None,
       aadhaar_number = None, pan_number = None, loan_amount = None, loan_purpose = None,
       employment_type = None, monthly_income = None \<rparr>"

definition no_sci :: "py_str \<Rightarrow> py_str option" where
  "no_sci s = None"

definition no_duplicates :: "(py_str \<times> json) list \<Rightarrow> frame \<Rightarrow> py_error + applicant list" where
  "no_duplicates mp original = Inl TypeError"

definition example_env :: env where
  "example_env =
     \<lparr> env_file = Some \<lparr> columns = [py ''E''], rows = [[Some (py ''x1'')]] \<rparr>,
       env_create_table_ok = True,
       env_oracle = Body (JObj [(py ''mapping'', JObj [(py ''E'', JStr (py ''email''))])]),
       env_loads = example_loads, env_sci = no_sci, env_db = None,
       env_duplicate_columns = no_duplicates \<rparr>"

text \<open>
  An upload of \<open>n\<close> rows with one column \<^verbatim>\<open>Name\<close>, every cell \<^verbatim>\<open>john smith\<close>, for
  which the oracle returns the empty mapping, and the row that the repair makes of the
  row at index \<open>i\<close>.
\<close>

definition uniform_sheet :: "nat \<Rightarrow> frame" where
  "uniform_sheet n = \<lparr> columns = [py ''Name''], rows = replicate n [Some (py ''john smith'')] \<rparr>"

definition uniform_env :: "nat \<Rightarrow> env" where
  "uniform_env n =
     \<lparr> env_file = Some (uniform_sheet n), env_create_table_ok = True,
       env_oracle = Body (JObj []), env_loads = example_loads, env_sci = no_sci,
       env_db = None, env_duplicate_columns = no_duplicates \<rparr>"

definition uniform_row :: "nat \<Rightarrow> applicant" where
  "uniform_row i =
     blank_row\<lparr>applicant_id := Some (py ''A'' @ str_nat (101 + i)),
               applicant_name := Some (py ''John Smith'')\<rparr>"

section \<open>Evaluation\<close>

text \<open>The defining equations, grouped for evaluating the model on concrete inputs.\<close>

lemma within_limit_small: "k \<le> 640 \<Longrightarrow> within_limit T k"
  by (simp add: within_limit_def split: option.splits)

lemmas text_defs = py_def ascii_def whitespace_def isspace_def strip_def is_ascii_digit_def
  is_digit_char_def isdigit_def decimal_value_def is_decimal_def is_lower_char_def
  is_upper_char_def is_alpha_char_def lower_char_def upper_char_def lower_def upper_def
  title_def split_ws_def str_nat.simps digits_value_def within_limit_small int_space_def
  py_int_unsigned_def py_int_def chop_newline_def

lemmas validator_defs = match_id_def valid_id_def email_char_def match_email_def valid_email_def
  valid_phone_def valid_aadhaar_def match_pan_def valid_pan_def name_char_def valid_name_def
  LOAN_PURPOSES_def EMPLOYMENT_TYPES_def valid_loan_purpose_def valid_employment_type_def
  valid_loan_amount_def valid_monthly_income_def placeholders_def is_null_def str_cell_def

lemmas repair_defs = normalize_value_def raw_values_def empty_bucket_def classify_def
  truthy_def numeric_split_def assign_number_def assign_first_def repair_row_def
  hashable_def repair_def match_stored_id_def db_ids_def first_free.simps next_id_def
  List.map_filter_def

lemmas pipeline_defs = json_has_def json_get_def nested_mapping_def parse_if_string_def
  ensure_dict_def decode_def call_llm_def required_def rename_label_def labels_def
  duplicated_field_def field_cell_def mapped_row_def apply_mapping_def process_def
  fillna_def to_record_def validate_def

lemmas upsert_defs = null_cell_def params_def bad_record_def upsert_def

lemmas fixture_defs = example_row_1_def example_row_2_def empty_store_def never_rejects_def
  rejects_key_def mapping_text_def example_loads_def example_mapping_def example_inner_def example_body_def
  blank_row_def no_sci_def no_duplicates_def example_env_def

section \<open>Upsert persistence\<close>

lemma upsert_rows_fail:
  "\<exists>r \<in> set df. bad_record T rejects r \<Longrightarrow> upsert_rows T rejects clock st (ins, upd) df = Inl DatabaseError"
proof (induction df arbitrary: st ins upd)
  case Nil
  then show ?case by simp
next
  case (Cons r rs)
  show ?case
  proof (cases "bad_record T rejects r")
    case True
    then show ?thesis by (auto simp: bad_record_def Let_def)
  next
    case False
    with Cons.prems have "\<exists>r \<in> set rs. bad_record T rejects r" by simp
    from Cons.IH [OF this] False show ?thesis
      by (auto simp: bad_record_def Let_def split: option.splits)
  qed
qed

lemma upsert_rows_ok:
  "\<forall>r \<in> set df. \<not> bad_record T rejects r \<Longrightarrow>
   \<exists>ins' upd' st'. upsert_rows T rejects clock st (ins, upd) df = Inr ((ins', upd'), st') \<and>
      ins' + upd' = ins + upd + length df \<and>
      (\<forall>r \<in> set df. \<exists>k. applicant_id (params T r) = Some k \<and> st' k \<noteq> None) \<and>
      (\<forall>k. st k \<noteq> None \<longrightarrow> st' k \<noteq> None)"
proof (induction df arbitrary: st ins upd)
  case Nil
  then show ?case by simp
next
  case (Cons r rs)
  from Cons.prems have nb: "\<not> rejects (params T r)" and rest: "\<forall>r \<in> set rs. \<not> bad_record T rejects r"
    by (auto simp: bad_record_def)
  from Cons.prems obtain k where k: "applicant_id (params T r) = Some k"
    by (auto simp: bad_record_def)
  have step: "\<exists>ins' upd' st'. upsert_rows T rejects clock st (ins, upd) (r # rs) = Inr ((ins', upd'), st') \<and>
      ins' + upd' = ins + upd + length (r # rs) \<and> st' k \<noteq> None \<and>
      (\<forall>r \<in> set rs. \<exists>k. applicant_id (params T r) = Some k \<and> st' k \<noteq> None) \<and>
      (\<forall>k. st k \<noteq> None \<longrightarrow> st' k \<noteq> None)"
  proof (cases "st k")
    case None
    let ?st1 = "st(k \<mapsto> (params T r, clock (ins + upd)))"
    from Cons.IH [OF rest, of ?st1 "ins + 1" upd]
    obtain ins' upd' st' where
      a: "upsert_rows T rejects clock ?st1 (ins + 1, upd) rs = Inr ((ins', upd'), st')"
      and b: "ins' + upd' = ins + 1 + upd + length rs"
      and c: "\<forall>r \<in> set rs. \<exists>k. applicant_id (params T r) = Some k \<and> st' k \<noteq> None"
      and d: "\<forall>k. ?st1 k \<noteq> None \<longrightarrow> st' k \<noteq> None"
      by blast
    have e: "upsert_rows T rejects clock st (ins, upd) (r # rs) = Inr ((ins', upd'), st')"
      using nb k None a by (simp add: Let_def)
    have f: "st' k \<noteq> None" using d by simp
    have g: "\<forall>k. st k \<noteq> None \<longrightarrow> st' k \<noteq> None" using d by (simp split: if_splits)
    show ?thesis using e b c f g by auto
  next
    case (Some p)
    obtain old created where p: "p = (old, created)" by (cases p)
    let ?st1 = "st(k \<mapsto> (params T r, created))"
    from Cons.IH [OF rest, of ?st1 ins "upd + 1"]
    obtain ins' upd' st' where
      a: "upsert_rows T rejects clock ?st1 (ins, upd + 1) rs = Inr ((ins', upd'), st')"
      and b: "ins' + upd' = ins + (upd + 1) + length rs"
      and c: "\<forall>r \<in> set rs. \<exists>k. applicant_id (params T r) = Some k \<and> st' k \<noteq> None"
      and d: "\<forall>k. ?st1 k \<noteq> None \<longrightarrow> st' k \<noteq> None"
      by blast
    have e: "upsert_rows T rejects clock st (ins, upd) (r # rs) = Inr ((ins', upd'), st')"
      using nb k Some p a by (simp add: Let_def)
    have f: "st' k \<noteq> None" using d by simp
    have g: "\<forall>k. st k \<noteq> None \<longrightarrow> st' k \<noteq> None" using d by (simp split: if_splits)
    show ?thesis using e b c f g by auto
  qed
  then show ?case using k by auto
qed

text \<open>
  Claim C8, as the code has it. The loop of \<^verbatim>\<open>upsert\<close> runs in one transaction for the
  whole batch: when the statements of any record of the batch raise, the error reaches
  the caller and the table is left as it was before the batch, whatever the records
  before the failing one wrote.
\<close>

theorem upsert_one_transaction:
  assumes "r \<in> set df" and "bad_record T rejects r"
  shows "upsert T rejects clock st df = (Inl DatabaseError, st)"
proof -
  from assms have "\<exists>r \<in> set df. bad_record T rejects r" by blast
  from upsert_rows_fail [OF this] show ?thesis by (simp add: upsert_def)
qed

theorem upsert_one_transaction_witness:
  "example_row_2 \<in> set [example_row_1, example_row_2] \<and>
   bad_record example_tables (rejects_key (py ''A102'')) example_row_2 \<and>
   upsert example_tables (rejects_key (py ''A102'')) Suc empty_store [example_row_1, example_row_2]
     = (Inl DatabaseError, empty_store)"
proof -
  have a: "example_row_2 \<in> set [example_row_1, example_row_2]" by simp
  have b: "bad_record example_tables (rejects_key (py ''A102'')) example_row_2"
    by (simp add: upsert_defs text_defs validator_defs fixture_defs)
  from upsert_one_transaction [OF a b] a b show ?thesis by simp
qed

text \<open>
  Claim C8, as stated, fails: the first record alone is stored, but followed in the same
  batch by a record whose write raises, it is not in the table afterwards.
\<close>

theorem upsert_isolation_counterexample:
  "snd (upsert example_tables (rejects_key (py ''A102'')) Suc empty_store [example_row_1]) (py ''A101'')
     = Some (example_row_1, Suc 0) \<and>
   snd (upsert example_tables (rejects_key (py ''A102'')) Suc empty_store [example_row_1, example_row_2]) (py ''A101'')
     = None"
  by (simp add: upsert_defs text_defs validator_defs fixture_defs Let_def)

text \<open>
  Claim C9. A record whose key is not in the table, persisted by one call of \<^verbatim>\<open>upsert\<close>,
  counts as one insert and no update; a second call with a record of the same key counts
  as no insert and one update, and the stored row then holds the second record's
  parameter values (placeholders as null) under the creation time of the first call.
\<close>

theorem upsert_twice:
  assumes "applicant_id (params T r) = Some k" and "applicant_id (params T r') = Some k"
    and "st k = None" and "\<not> rejects (params T r)" and "\<not> rejects (params T r')"
  shows "upsert T rejects clock st [r] = (Inr (1, 0), st(k \<mapsto> (params T r, clock 0))) \<and>
         upsert T rejects clock' (st(k \<mapsto> (params T r, clock 0))) [r']
           = (Inr (0, 1), st(k \<mapsto> (params T r', clock 0)))"
  using assms by (simp add: upsert_def Let_def)

theorem upsert_twice_witness:
  "applicant_id (params example_tables example_row_1) = Some (py ''A101'') \<and> empty_store (py ''A101'') = None \<and>
   \<not> never_rejects (params example_tables example_row_1) \<and>
   upsert example_tables never_rejects Suc empty_store [example_row_1]
     = (Inr (1, 0), empty_store((py ''A101'') \<mapsto> (params example_tables example_row_1, Suc 0))) \<and>
   upsert example_tables never_rejects Suc (empty_store((py ''A101'') \<mapsto> (params example_tables example_row_1, Suc 0))) [example_row_1]
     = (Inr (0, 1), empty_store((py ''A101'') \<mapsto> (params example_tables example_row_1, Suc 0))) \<and>
   params example_tables example_row_1 = example_row_1"
proof -
  have a: "applicant_id (params example_tables example_row_1) = Some (py ''A101'')"
    by (simp add: upsert_defs text_defs validator_defs fixture_defs)
  have b: "empty_store (py ''A101'') = None" by (simp add: empty_store_def)
  have c: "\<not> never_rejects (params example_tables example_row_1)" by (simp add: never_rejects_def)
  have d: "params example_tables example_row_1 = example_row_1"
    by (simp add: upsert_defs text_defs validator_defs fixture_defs)
  have "upsert example_tables never_rejects Suc empty_store [example_row_1]
     = (Inr (1, 0), empty_store((py ''A101'') \<mapsto> (params example_tables example_row_1, Suc 0))) \<and>
   upsert example_tables never_rejects Suc (empty_store((py ''A101'') \<mapsto> (params example_tables example_row_1, Suc 0))) [example_row_1]
     = (Inr (0, 1), empty_store((py ''A101'') \<mapsto> (params example_tables example_row_1, Suc 0)))"
    by (rule upsert_twice [where r = example_row_1 and r' = example_row_1 and k = "py ''A101''"
          and st = empty_store and T = example_tables and rejects = never_rejects and clock = Suc and clock' = Suc,
          OF a a b c c])
  with a b c d show ?thesis by blast
qed

section \<open>The numeric split\<close>

text \<open>
  What the walk over the sorted numbers leaves: the loan is the first number above 500000
  that is no phone number, and the income the first number from 1 to 499999 that is no
  phone number. A zero does not count as assigned, neither in the walk nor afterwards.
\<close>

lemma split_walk:
  "foldl (split_step T) (l, i) xs = (l', i') \<Longrightarrow>
     (if truthy l' then l' else None) =
       (if truthy l then l
        else find (\<lambda>n. \<not> valid_phone T (str_nat n) \<and> 500000 < n) xs) \<and>
     (if truthy i' then i' else None) =
       (if truthy i then i
        else find (\<lambda>n. \<not> valid_phone T (str_nat n) \<and> 0 < n \<and> n < 500000) xs)"
proof (induction xs arbitrary: l i)
  case Nil
  then show ?case by auto
next
  case (Cons x xs)
  obtain l1 i1 where s: "split_step T (l, i) x = (l1, i1)" by (cases "split_step T (l, i) x")
  with Cons.prems have f: "foldl (split_step T) (l1, i1) xs = (l', i')" by simp
  note ih = Cons.IH [OF f]
  show ?case
  proof (cases "valid_phone T (str_nat x)")
    case True
    with s have "l1 = l" "i1 = i" by auto
    with ih True show ?thesis by simp
  next
    case False
    note np = this
    show ?thesis
    proof (cases "x < 500000 \<and> \<not> truthy i")
      case True
      with s np have e: "l1 = l" "i1 = Some x" by auto
      show ?thesis
      proof (cases "x = 0")
        case True
        with e have "\<not> truthy i1" by (simp add: truthy_def)
        with ih e True \<open>x < 500000 \<and> \<not> truthy i\<close> show ?thesis by simp
      next
        case False
        with e have "truthy i1" by (simp add: truthy_def)
        with ih e False np \<open>x < 500000 \<and> \<not> truthy i\<close> show ?thesis by simp
      qed
    next
      case False
      note c1 = this
      show ?thesis
      proof (cases "500000 < x \<and> \<not> truthy l")
        case True
        with s np c1 have e: "l1 = Some x" "i1 = i" by auto
        from True e have "truthy l1" by (simp add: truthy_def)
        with ih e True np c1 show ?thesis by auto
      next
        case False
        with s np c1 have e: "l1 = l" "i1 = i" by auto
        with ih False np c1 show ?thesis by auto
      qed
    qed
  qed
qed

lemma assign_number_truthy:
  "assign_number x old = (case (if truthy x then x else None) of None \<Rightarrow> old | Some n \<Rightarrow> Some (str_nat n))"
  by (auto simp: assign_number_def truthy_def split: option.splits)

lemma numeric_split_exact:
  "assign_number (fst (numeric_split T numeric)) old =
     (case find (\<lambda>n. \<not> valid_phone T (str_nat n) \<and> 500000 < n) (sort numeric) of
        None \<Rightarrow> old | Some n \<Rightarrow> Some (str_nat n)) \<and>
   assign_number (snd (numeric_split T numeric)) old =
     (case find (\<lambda>n. \<not> valid_phone T (str_nat n) \<and> 0 < n \<and> n < 500000) (sort numeric) of
        None \<Rightarrow> old | Some n \<Rightarrow> Some (str_nat n))"
proof -
  obtain l' i' where f: "foldl (split_step T) (None, None) (sort numeric) = (l', i')"
    by (cases "foldl (split_step T) (None, None) (sort numeric)")
  from split_walk [OF f] f show ?thesis
    by (simp add: numeric_split_def assign_number_truthy truthy_def)
qed

text \<open>The two rows of the specification's example, for every Unicode database.\<close>

lemma numeric_split_examples:
  "repair_row T no_sci None {||} [Some (py ''450000''), Some (py ''600000'')] blank_row
     = Inr (blank_row\<lparr>applicant_id := Some (py ''A101''), monthly_income := Some (py ''450000''),
                       loan_amount := Some (py ''600000'')\<rparr>, {|101|}) \<and>
   repair_row T no_sci None {||} [Some (py ''500000'')] blank_row
     = Inr (blank_row\<lparr>applicant_id := Some (py ''A101'')\<rparr>, {|101|})"
  by (simp add: text_defs validator_defs repair_defs fixture_defs Let_def)

text \<open>
  Claim C3 on the row \<^verbatim>\<open>["0", "100"]\<close>: the first value below 500000 is 0, yet
  \<^verbatim>\<open>not income\<close> still holds after \<^verbatim>\<open>income = 0\<close>, the next value replaces it and
  \<^verbatim>\<open>monthly_income\<close> becomes 100; on the row \<^verbatim>\<open>["0"]\<close> alone nothing is assigned.
\<close>

theorem numeric_split_zero_slip:
  "repair_row T no_sci None {||} [Some (py ''0''), Some (py ''100'')] blank_row
     = Inr (blank_row\<lparr>applicant_id := Some (py ''A101''), monthly_income := Some (py ''100'')\<rparr>,
            {|101|}) \<and>
   repair_row T no_sci None {||} [Some (py ''0'')] blank_row
     = Inr (blank_row\<lparr>applicant_id := Some (py ''A101'')\<rparr>, {|101|}) \<and>
   numeric_split T [0, 100] = (None, Some 100)"
  by (simp add: text_defs validator_defs repair_defs fixture_defs Let_def)

section \<open>Amounts after repair\<close>

text \<open>
  Claim C4 on three rows: the numeric split stores a loan amount of 20000000 and a monthly
  income of 100, and a cell \<^verbatim>\<open>abc\<close> of a column mapped to \<^verbatim>\<open>loan_amount\<close> stays in the
  repaired record; none of them passes the field's range validator, which \<^verbatim>\<open>repair\<close>
  never calls.
\<close>

theorem repair_amounts_out_of_range:
  "repair_row T no_sci None {||} [Some (py ''20000000'')] blank_row
     = Inr (blank_row\<lparr>applicant_id := Some (py ''A101''), loan_amount := Some (py ''20000000'')\<rparr>,
            {|101|}) \<and>
   valid_loan_amount T (py ''20000000'') = False \<and>
   repair_row T no_sci None {||} [Some (py ''100'')] blank_row
     = Inr (blank_row\<lparr>applicant_id := Some (py ''A101''), monthly_income := Some (py ''100'')\<rparr>,
            {|101|}) \<and>
   valid_monthly_income T (py ''100'') = False \<and>
   repair_row T no_sci None {||} [Some (py ''abc'')] (blank_row\<lparr>loan_amount := Some (py ''abc'')\<rparr>)
     = Inr (blank_row\<lparr>applicant_id := Some (py ''A101''), applicant_name := Some (py ''Abc''),
                       loan_amount := Some (py ''abc'')\<rparr>, {|101|}) \<and>
   valid_loan_amount T (py ''abc'') = False"
  by (simp add: text_defs validator_defs repair_defs fixture_defs Let_def)

section \<open>Invalidation and the endpoints\<close>

text \<open>What Pass 1 does on the frame it is given.\<close>

lemma wipe_keeps_valid:
  "wipe T validator c = Some s \<Longrightarrow> c = Some s \<and> validator (strip T s) \<and> \<not> is_null T (strip T s)"
  by (auto simp: wipe_def Let_def str_cell_def split: if_splits option.splits)

lemma invalidate_row_exempt:
  "loan_amount (invalidate_row T r) = loan_amount r \<and>
   monthly_income (invalidate_row T r) = monthly_income r"
  by (simp add: invalidate_row_def)

lemma invalidate_row_email:
  "email (invalidate_row T r) = Some s \<Longrightarrow> email r = Some s \<and> valid_email T (strip T s)"
  using wipe_keeps_valid [of T "valid_email T" "email r" s] by (simp add: invalidate_row_def)

text \<open>
  Claim C1 on an upload whose column \<^verbatim>\<open>E\<close> is mapped to \<^verbatim>\<open>email\<close> and holds
  \<^verbatim>\<open>x1\<close>: both endpoints go from the mapped frame straight to \<^verbatim>\<open>repair\<close>, so the cell,
  which fails \<^verbatim>\<open>valid_email\<close>, is in the preview and in the stored row; with Pass 1 run
  before the repair it would be null.
\<close>

theorem endpoints_skip_invalidation:
  "process T example_env
     = Inr ([(py ''E'', JStr (py ''email''))],
            [blank_row\<lparr>applicant_id := Some (py ''A101''), email := Some (py ''x1'')\<rparr>]) \<and>
   process_two_pass T example_env
     = Inr ([(py ''E'', JStr (py ''email''))], [blank_row\<lparr>applicant_id := Some (py ''A101'')\<rparr>]) \<and>
   valid_email T (py ''x1'') = False \<and>
   validate T example_env
     = Inr \<lparr> status = py ''validated'', mapping = [(py ''E'', JStr (py ''email''))],
             preview = [to_record (blank_row\<lparr>applicant_id := Some (py ''A101''),
                                             email := Some (py ''x1'')\<rparr>)] \<rparr> \<and>
   upload T example_env never_rejects Suc empty_store
     = (Inr \<lparr> upload_status = py ''success'', inserted = 1, updated = 0 \<rparr>,
        empty_store(py ''A101'' \<mapsto>
          (blank_row\<lparr>applicant_id := Some (py ''A101''), email := Some (py ''x1'')\<rparr>, Suc 0)))"
proof -
  have p: "process T example_env
     = Inr ([(py ''E'', JStr (py ''email''))],
            [blank_row\<lparr>applicant_id := Some (py ''A101''), email := Some (py ''x1'')\<rparr>])"
    by (simp add: text_defs validator_defs repair_defs pipeline_defs fixture_defs Let_def)
  have q: "process_two_pass T example_env
     = Inr ([(py ''E'', JStr (py ''email''))], [blank_row\<lparr>applicant_id := Some (py ''A101'')\<rparr>])"
    by (simp add: text_defs validator_defs repair_defs pipeline_defs fixture_defs Let_def
          process_two_pass_def invalidate_def invalidate_row_def wipe_def)
  have e: "valid_email T (py ''x1'') = False" by (simp add: text_defs validator_defs)
  have v: "validate T example_env
     = Inr \<lparr> status = py ''validated'', mapping = [(py ''E'', JStr (py ''email''))],
             preview = [to_record (blank_row\<lparr>applicant_id := Some (py ''A101''),
                                             email := Some (py ''x1'')\<rparr>)] \<rparr>"
    by (simp add: validate_def p)
  have u: "upload T example_env never_rejects Suc empty_store
     = (Inr \<lparr> upload_status = py ''success'', inserted = 1, updated = 0 \<rparr>,
        empty_store(py ''A101'' \<mapsto>
          (blank_row\<lparr>applicant_id := Some (py ''A101''), email := Some (py ''x1'')\<rparr>, Suc 0)))"
    unfolding upload_def p
    by (simp add: text_defs validator_defs null_cell_def params_def upsert_def blank_row_def
          empty_store_def never_rejects_def Let_def)
  from p q e v u show ?thesis by blast
qed

section \<open>The oracle-decoding step\<close>

lemma has_key_iff: "(key \<in> fst ` set kvs) = (map_of kvs key \<noteq> None)"
  by (simp add: map_of_eq_None_iff)

lemma decode_object:
  "decode loads (JObj kvs) =
     Inr (filter (\<lambda>(k, v). k \<noteq> py ''is_valid'')
            (ensure_dict (parse_if_string loads
               (case map_of kvs (py ''mapping'') of
                  Some m \<Rightarrow> m
                | None \<Rightarrow> (case map_of kvs (py ''result'') of
                              Some res \<Rightarrow> nested_mapping (JObj []) res
                            | None \<Rightarrow> JObj [])))))"
proof (cases "map_of kvs (py ''mapping'')")
  case None
  note m = this
  show ?thesis
  proof (cases "map_of kvs (py ''result'')")
    case None
    with m show ?thesis by (simp add: decode_def json_has_def json_get_def has_key_iff)
  next
    case (Some res)
    with m show ?thesis by (simp add: decode_def json_has_def json_get_def has_key_iff)
  qed
next
  case (Some mp)
  note m = this
  show ?thesis
  proof (cases "map_of kvs (py ''result'')")
    case None
    with m show ?thesis by (simp add: decode_def json_has_def json_get_def has_key_iff)
  next
    case (Some res)
    with m show ?thesis by (simp add: decode_def json_has_def json_get_def has_key_iff)
  qed
qed

text \<open>What the last two steps of \<^verbatim>\<open>call_llm\<close> make of the value they are given.\<close>

lemma ensure_parse:
  "ensure_dict (parse_if_string loads v) = mapping_of_value loads (Some v)"
  by (cases v) (simp_all add: ensure_dict_def parse_if_string_def split: option.splits json.splits)

lemma ensure_parse_empty: "ensure_dict (parse_if_string loads (JObj [])) = []"
  by (simp add: ensure_dict_def parse_if_string_def)

lemma decode_object_located:
  "decode loads (JObj kvs) =
     Inr (filter (\<lambda>(k, v). k \<noteq> py ''is_valid'') (mapping_of_value loads (mapping_location kvs)))"
proof (cases "mapping_location kvs")
  case None
  then have "(case map_of kvs (py ''mapping'') of
                  Some m \<Rightarrow> m
                | None \<Rightarrow> (case map_of kvs (py ''result'') of
                              Some res \<Rightarrow> nested_mapping (JObj []) res
                            | None \<Rightarrow> JObj [])) = JObj []"
    by (auto simp add: mapping_location_def nested_mapping_def split: option.splits json.splits)
  with None show ?thesis by (simp add: decode_object ensure_parse_empty)
next
  case (Some v)
  then have "(case map_of kvs (py ''mapping'') of
                  Some m \<Rightarrow> m
                | None \<Rightarrow> (case map_of kvs (py ''result'') of
                              Some res \<Rightarrow> nested_mapping (JObj []) res
                            | None \<Rightarrow> JObj [])) = v"
    by (auto simp add: mapping_location_def nested_mapping_def split: option.splits json.splits)
  with Some show ?thesis by (simp add: decode_object ensure_parse)
qed

lemma decode_array:
  "decode loads (JArr xs) =
     (if JStr (py ''result'') \<in> set xs \<or> JStr (py ''mapping'') \<in> set xs
      then Inl TypeError else Inr [])"
  by (simp add: decode_def json_has_def json_get_def ensure_dict_def parse_if_string_def)

lemma decode_string:
  "decode loads (JStr s) =
     (if contains (py ''result'') s \<or> contains (py ''mapping'') s
      then Inl TypeError else Inr [])"
  by (simp add: decode_def json_has_def json_get_def ensure_dict_def parse_if_string_def)

text \<open>
  Claim C2, as the code has it, for every response. A JSON object gives a mapping and
  raises nothing: the value is taken at \<^verbatim>\<open>mapping\<close> in the root, else at
  \<^verbatim>\<open>result.mapping\<close>, else at \<^verbatim>\<open>result.result\<close>; an object found there is the mapping, a
  string found there is parsed and is the mapping when it parses to an object, and in
  every other case (no value, another kind of value, a string that does not parse or
  parses to no object) the mapping is empty; the key \<^verbatim>\<open>is_valid\<close> is dropped. An array
  or a string gives the empty mapping unless it contains \<^verbatim>\<open>result\<close> or \<^verbatim>\<open>mapping\<close>, where
  the lookup raises \<^verbatim>\<open>TypeError\<close>, as it does on null, a boolean and a number. A
  transport failure and a body that is not JSON leave \<^verbatim>\<open>call_llm\<close> as the exception of
  \<^verbatim>\<open>requests.post\<close> and of \<^verbatim>\<open>r.json()\<close>.
\<close>

theorem call_llm_by_response:
  "call_llm loads (Body (JObj kvs))
     = Inr (filter (\<lambda>(k, v). k \<noteq> py ''is_valid'')
              (mapping_of_value loads (mapping_location kvs))) \<and>
   call_llm loads (Body (JArr xs))
     = (if JStr (py ''result'') \<in> set xs \<or> JStr (py ''mapping'') \<in> set xs
        then Inl TypeError else Inr []) \<and>
   call_llm loads (Body (JStr s))
     = (if contains (py ''result'') s \<or> contains (py ''mapping'') s
        then Inl TypeError else Inr []) \<and>
   call_llm loads (Body JNull) = Inl TypeError \<and>
   call_llm loads (Body (JBool b)) = Inl TypeError \<and>
   call_llm loads (Body (JNum n)) = Inl TypeError \<and>
   call_llm loads Transport_failure = Inl RequestException \<and>
   call_llm loads Not_json = Inl JSONDecodeError"
  by (simp add: call_llm_def decode_object_located decode_array decode_string)
    (simp add: decode_def json_has_def)

theorem call_llm_by_response_witness:
  "call_llm example_loads (Body (JObj example_body)) = Inr [(py ''Name'', JStr (py ''applicant_name''))] \<and>
   call_llm example_loads (Body (JObj [(py ''result'', JObj [(py ''mapping'', JObj example_mapping)])]))
     = Inr [(py ''Name'', JStr (py ''applicant_name''))] \<and>
   call_llm example_loads (Body (JObj [(py ''mapping'', JStr mapping_text)]))
     = Inr [(py ''E'', JStr (py ''email''))] \<and>
   call_llm example_loads (Body (JObj [(py ''result'', JObj [(py ''result'', JStr mapping_text)])]))
     = Inr [(py ''E'', JStr (py ''email''))] \<and>
   call_llm example_loads (Body (JObj [(py ''result'', JStr mapping_text)])) = Inr [] \<and>
   call_llm example_loads (Body (JObj [(py ''mapping'', JStr (py ''[]''))])) = Inr [] \<and>
   call_llm example_loads (Body (JObj [(py ''mapping'', JStr (py ''x''))])) = Inr [] \<and>
   call_llm example_loads (Body (JObj [(py ''mapping'', JArr [JStr (py ''E'')])])) = Inr [] \<and>
   call_llm example_loads (Body (JObj [(py ''mapping'', JNum (py ''7''))])) = Inr [] \<and>
   call_llm example_loads (Body (JObj [(py ''mapping'', JObj []), (py ''result'', JObj example_inner)]))
     = Inr [] \<and>
   call_llm example_loads (Body (JObj [])) = Inr [] \<and>
   call_llm example_loads (Body (JArr [])) = Inr [] \<and>
   call_llm example_loads (Body (JStr (py ''abc''))) = Inr [] \<and>
   call_llm example_loads (Body (JStr (py ''no result''))) = Inl TypeError"
  using call_llm_by_response [where loads = example_loads and kvs = example_body]
    call_llm_by_response [where loads = example_loads
      and kvs = "[(py ''result'', JObj [(py ''mapping'', JObj example_mapping)])]"]
    call_llm_by_response [where loads = example_loads and kvs = "[(py ''mapping'', JStr mapping_text)]"]
    call_llm_by_response [where loads = example_loads
      and kvs = "[(py ''result'', JObj [(py ''result'', JStr mapping_text)])]"]
    call_llm_by_response [where loads = example_loads and kvs = "[(py ''result'', JStr mapping_text)]"]
    call_llm_by_response [where loads = example_loads and kvs = "[(py ''mapping'', JStr (py ''[]''))]"]
    call_llm_by_response [where loads = example_loads and kvs = "[(py ''mapping'', JStr (py ''x''))]"]
    call_llm_by_response [where loads = example_loads
      and kvs = "[(py ''mapping'', JArr [JStr (py ''E'')])]"]
    call_llm_by_response [where loads = example_loads and kvs = "[(py ''mapping'', JNum (py ''7''))]"]
    call_llm_by_response [where loads = example_loads
      and kvs = "[(py ''mapping'', JObj []), (py ''result'', JObj example_inner)]"]
    call_llm_by_response [where loads = example_loads and kvs = "[]" and xs = "[]"
      and s = "py ''abc''"]
    call_llm_by_response [where loads = example_loads and s = "py ''no result''"]
  by (simp add: mapping_location_def py_def example_loads_def mapping_text_def example_mapping_def
        example_inner_def example_body_def)

text \<open>
  Claim C2 as the specification words it fails: a transport failure, a body that is not
  JSON, a null body and an array holding \<^verbatim>\<open>result\<close> each leave \<^verbatim>\<open>call_llm\<close> as an
  exception, where the specification promises the empty mapping.
\<close>

theorem call_llm_propagates_counterexample:
  "call_llm example_loads Transport_failure = Inl RequestException \<and>
   call_llm example_loads Not_json = Inl JSONDecodeError \<and>
   call_llm example_loads (Body JNull) = Inl TypeError \<and>
   call_llm example_loads (Body (JNum (py ''7''))) = Inl TypeError \<and>
   call_llm example_loads (Body (JArr [JStr (py ''result'')])) = Inl TypeError \<and>
   call_llm example_loads (Body (JStr (py ''no mapping''))) = Inl TypeError"
  by (simp add: call_llm_def decode_def json_has_def json_get_def py_def)

section \<open>The identifier allocator\<close>

subsection \<open>Reading a stored identifier\<close>

lemma digits_nat_snoc: "digits_nat (xs @ [c]) = 10 * digits_nat xs + (c - 48)"
  by (simp add: digits_nat_def)

lemma digits_nat_str_nat: "digits_nat (str_nat n) = n"
proof (induction n rule: str_nat.induct)
  case (1 n)
  show ?case
  proof (cases "n < 10")
    case True
    then show ?thesis by (subst str_nat.simps) (simp add: digits_nat_def)
  next
    case False
    from False "1.IH" have "digits_nat (str_nat (n div 10)) = n div 10" by simp
    with False show ?thesis by (subst str_nat.simps) (simp add: digits_nat_snoc)
  qed
qed

lemma str_nat_inj: "str_nat n = str_nat m \<Longrightarrow> n = m"
  by (metis digits_nat_str_nat)

lemma str_nat_digits: "str_nat n \<noteq> [] \<and> list_all is_ascii_digit (str_nat n)"
proof (induction n rule: str_nat.induct)
  case (1 n)
  show ?case
  proof (cases "n < 10")
    case True
    then show ?thesis by (subst (1 2) str_nat.simps) (simp add: is_ascii_digit_def)
  next
    case False
    from False "1.IH" have "list_all is_ascii_digit (str_nat (n div 10))" by simp
    moreover have "is_ascii_digit (48 + n mod 10)" by (simp add: is_ascii_digit_def)
    ultimately show ?thesis using False by (subst (1 2) str_nat.simps) simp
  qed
qed

lemma numeric_suffix_str_nat: "numeric_suffix (py ''A'' @ str_nat k) = Some k"
  using str_nat_digits [of k] by (simp add: numeric_suffix_def py_def digits_nat_str_nat)

lemma split_on_absent: "sep \<notin> set s \<Longrightarrow> split_on sep cur s = [cur @ s]"
  by (induction s arbitrary: cur) auto

lemma digit_facts:
  assumes "is_ascii_digit c"
  shows "\<not> int_space T c" and "c \<noteq> 45" and "c \<noteq> 43" and "c \<noteq> 95" and "c \<noteq> 10"
    and "decimal_value T c = Some (c - 48)"
  using assms by (auto simp add: is_ascii_digit_def int_space_def decimal_value_def)

lemma digits_value_ascii:
  assumes "ds \<noteq> []" and "list_all is_ascii_digit ds"
  shows "digits_value T ds = Some (digits_nat ds)"
proof -
  from assms(2) have d: "\<forall>c\<in>set ds. decimal_value T c = Some (c - 48)"
    by (simp add: list_all_iff digit_facts)
  then have "list_all (is_decimal T) ds" by (simp add: list_all_iff is_decimal_def)
  moreover have "foldl (\<lambda>a c. 10 * a + the (decimal_value T c)) a ds
                   = foldl (\<lambda>a d. 10 * a + (d - 48)) a ds" for a
    using d by (induction ds arbitrary: a) simp_all
  ultimately show ?thesis using assms(1) by (simp add: digits_value_def digits_nat_def)
qed

lemma py_int_unsigned_ascii:
  assumes "ds \<noteq> []" and "list_all is_ascii_digit ds" and "length ds \<le> 640"
  shows "py_int_unsigned T ds = Some (digits_nat ds)"
proof -
  from assms(2) have n: "95 \<notin> set ds" by (auto simp add: list_all_iff is_ascii_digit_def)
  then have f: "filter (\<lambda>c. c \<noteq> 95) ds = ds" by (simp add: filter_id_conv) metis
  from n have s: "split_on 95 [] ds = [ds]" by (simp add: split_on_absent)
  from assms show ?thesis
    by (simp add: py_int_unsigned_def f s digits_value_ascii within_limit_small Let_def)
qed

lemma strip_digits:
  assumes "ds \<noteq> []" and "list_all is_ascii_digit ds"
  shows "rev (dropWhile (int_space T) (rev (dropWhile (int_space T) ds))) = ds"
    and "rev (dropWhile (int_space T) (rev (dropWhile (int_space T) (ds @ [10])))) = ds"
proof -
  from assms obtain c cs where e: "ds = c # cs" by (cases ds) auto
  with assms(2) have h: "\<not> int_space T c" by (simp add: digit_facts)
  from assms have "is_ascii_digit (last ds)" by (simp add: list_all_iff)
  then have l: "\<not> int_space T (last ds)" by (simp add: digit_facts)
  have a: "dropWhile (int_space T) ds = ds" using e h by simp
  have r: "dropWhile (int_space T) (rev ds) = rev ds"
    using assms(1) l by (cases "rev ds") (auto simp add: last_rev [symmetric] hd_rev)
  show "rev (dropWhile (int_space T) (rev (dropWhile (int_space T) ds))) = ds"
    by (simp add: a r)
  have a': "dropWhile (int_space T) (ds @ [10]) = ds @ [10]" using e h by simp
  have t: "int_space T 10" by (simp add: int_space_def)
  show "rev (dropWhile (int_space T) (rev (dropWhile (int_space T) (ds @ [10])))) = ds"
    by (simp add: a' t r)
qed

lemma py_int_ascii:
  assumes "ds \<noteq> []" and "list_all is_ascii_digit ds" and "length ds \<le> 640"
  shows "py_int T ds = Some (int (digits_nat ds))"
    and "py_int T (ds @ [10]) = Some (int (digits_nat ds))"
proof -
  from assms obtain c cs where e: "ds = c # cs" by (cases ds) auto
  with assms(2) have c: "c \<noteq> 45" "c \<noteq> 43" by (simp_all add: digit_facts)
  from py_int_unsigned_ascii [OF assms] e
  have u: "py_int_unsigned T (c # cs) = Some (digits_nat ds)" by simp
  have "py_int T ds = (case ds of [] \<Rightarrow> None
      | c # cs \<Rightarrow>
          if c = 45 then map_option (\<lambda>n. - int n) (py_int_unsigned T cs)
          else if c = 43 then map_option int (py_int_unsigned T cs)
          else map_option int (py_int_unsigned T (c # cs)))"
    unfolding py_int_def strip_digits(1) [OF assms(1,2)] ..
  with e c u show "py_int T ds = Some (int (digits_nat ds))" by simp
  have "py_int T (ds @ [10]) = (case ds of [] \<Rightarrow> None
      | c # cs \<Rightarrow>
          if c = 45 then map_option (\<lambda>n. - int n) (py_int_unsigned T cs)
          else if c = 43 then map_option int (py_int_unsigned T cs)
          else map_option int (py_int_unsigned T (c # cs)))"
    unfolding py_int_def strip_digits(2) [OF assms(1,2)] ..
  with e c u show "py_int T (ds @ [10]) = Some (int (digits_nat ds))" by simp
qed

text \<open>The number \<^verbatim>\<open>int(r[0][1:])\<close> reads from a row that the pattern accepts.\<close>

lemma stored_number:
  assumes "match_stored_id r" and "length r \<le> 50"
  shows "py_int T (tl r) = Some (int (digits_nat (chop_newline (tl r))))"
proof -
  from assms(1) obtain c cs where e: "r = c # cs" and ne: "chop_newline cs \<noteq> []"
    and d: "list_all is_ascii_digit (chop_newline cs)"
    by (cases r) (auto simp add: match_stored_id_def)
  from assms(2) e have len: "length (chop_newline cs) \<le> 640"
    by (auto simp add: chop_newline_def)
  show ?thesis
  proof (cases "cs \<noteq> [] \<and> last cs = 10")
    case True
    then have "cs = chop_newline cs @ [10]" by (simp add: chop_newline_def) (metis append_butlast_last_id)
    then have "py_int T cs = Some (int (digits_nat (chop_newline cs)))"
      using py_int_ascii(2) [OF ne d len, of T] by simp
    with e show ?thesis by simp
  next
    case False
    then have "chop_newline cs = cs" by (auto simp add: chop_newline_def)
    with py_int_ascii(1) [OF ne d len, of T] e show ?thesis by simp
  qed
qed

lemma those_map: "(\<forall>x\<in>set xs. f x = Some (g x)) \<Longrightarrow> those (map f xs) = Some (map g xs)"
  by (induction xs) simp_all

lemma db_ids_rows:
  assumes "\<forall>r\<in>set stored. length r \<le> 50"
  shows "db_ids T (Some stored)
           = fset_of_list (map (\<lambda>r. digits_nat (chop_newline (tl r))) (filter match_stored_id stored))"
proof -
  have "\<forall>r\<in>set (filter match_stored_id stored).
          py_int T (tl r) = Some (int (digits_nat (chop_newline (tl r))))"
    using assms by (simp add: stored_number)
  from those_map [of "filter match_stored_id stored" "\<lambda>r. py_int T (tl r)", OF this]
  show ?thesis by (simp add: db_ids_def comp_def)
qed

lemma suffix_matches:
  assumes "numeric_suffix r = Some k"
  shows "match_stored_id r" and "digits_nat (chop_newline (tl r)) = k"
proof -
  from assms obtain c ds where e: "r = c # ds" and c: "c = 65" and ne: "ds \<noteq> []"
    and d: "list_all is_ascii_digit ds" and k: "k = digits_nat ds"
    by (cases r) (auto simp add: numeric_suffix_def split: if_splits)
  from ne d have "is_ascii_digit (last ds)" by (simp add: list_all_iff)
  then have "last ds \<noteq> 10" by (simp add: digit_facts)
  then have ch: "chop_newline ds = ds" by (simp add: chop_newline_def)
  from e c ne d ch show "match_stored_id r" by (simp add: match_stored_id_def)
  from e ch k show "digits_nat (chop_newline (tl r)) = k" by simp
qed

lemma match_is_suffix:
  assumes "match_stored_id r" and "10 \<notin> set r"
  shows "numeric_suffix r = Some (digits_nat (chop_newline (tl r)))"
proof -
  from assms(1) obtain c cs where e: "r = c # cs" and c: "c = 65" and ne: "chop_newline cs \<noteq> []"
    and d: "list_all is_ascii_digit (chop_newline cs)"
    by (cases r) (auto simp add: match_stored_id_def)
  from assms(2) e have "10 \<notin> set cs" by simp
  then have "cs = [] \<or> last cs \<noteq> 10" by (metis last_in_set)
  then have ch: "chop_newline cs = cs" by (auto simp add: chop_newline_def)
  with e c ne d show ?thesis by (simp add: numeric_suffix_def)
qed

lemma suffixes_of_rows:
  assumes "\<forall>r\<in>set stored. 10 \<notin> set r"
  shows "List.map_filter numeric_suffix stored
           = map (\<lambda>r. digits_nat (chop_newline (tl r))) (filter match_stored_id stored)"
  using assms
proof (induction stored)
  case Nil
  show ?case by (simp add: List.map_filter_def)
next
  case (Cons r stored)
  then have ih: "List.map_filter numeric_suffix stored
           = map (\<lambda>r. digits_nat (chop_newline (tl r))) (filter match_stored_id stored)"
    and nl: "10 \<notin> set r" by simp_all
  show ?case
  proof (cases "match_stored_id r")
    case True
    from match_is_suffix [OF True nl] True ih show ?thesis
      by (simp add: List.map_filter_def)
  next
    case False
    then have "numeric_suffix r = None" using suffix_matches(1) [of r] by (cases "numeric_suffix r") auto
    with False ih show ?thesis by (simp add: List.map_filter_def)
  qed
qed

lemma db_ids_seen:
  assumes "\<forall>r\<in>set stored. length r \<le> 50 \<and> 10 \<notin> set r"
  shows "db_ids T (Some stored) |\<union>| used = seen_numbers stored used"
proof -
  from assms have a: "\<forall>r\<in>set stored. length r \<le> 50" and b: "\<forall>r\<in>set stored. 10 \<notin> set r" by auto
  show ?thesis by (simp add: db_ids_rows [OF a] suffixes_of_rows [OF b] seen_numbers_def)
qed

lemma suffix_in_db_ids:
  assumes "\<forall>r\<in>set stored. length r \<le> 50" and "r \<in> set stored" and "numeric_suffix r = Some k"
  shows "k |\<in>| db_ids T (Some stored)"
proof -
  from suffix_matches [OF assms(3)] assms(2)
  have "k \<in> (\<lambda>r. digits_nat (chop_newline (tl r))) ` set (filter match_stored_id stored)"
    by force
  then show ?thesis by (auto simp add: db_ids_rows [OF assms(1)] fset_of_list.rep_eq)
qed

subsection \<open>The number issued\<close>

lemma first_free_fresh: "n |\<notin>| A \<Longrightarrow> first_free A n = n"
  by (subst first_free.simps) simp

lemma above_fMax: "A \<noteq> {||} \<Longrightarrow> Suc (fMax A) |\<notin>| A"
proof
  assume "A \<noteq> {||}" and "Suc (fMax A) |\<in>| A"
  then have "Suc (fMax A) \<le> fMax A" by simp
  then show False by simp
qed

lemma next_id_eq:
  "next_id T db used =
     (py ''A'' @ str_nat (issued (db_ids T db |\<union>| used)),
      finsert (issued (db_ids T db |\<union>| used)) used)"
proof -
  define A where "A = db_ids T db |\<union>| used"
  have f: "first_free A (if A \<noteq> {||} then fMax A + 1 else 101) = issued A"
  proof (cases "A = {||}")
    case True
    then show ?thesis by (simp add: first_free_fresh issued_def)
  next
    case False
    from above_fMax [OF False] have "first_free A (Suc (fMax A)) = Suc (fMax A)"
      by (rule first_free_fresh)
    with False show ?thesis by (simp add: issued_def)
  qed
  have "next_id T db used =
          (py ''A'' @ str_nat (first_free A (if A \<noteq> {||} then fMax A + 1 else 101)),
           finsert (first_free A (if A \<noteq> {||} then fMax A + 1 else 101)) used)"
    unfolding next_id_def A_def Let_def ..
  also have "\<dots> = (py ''A'' @ str_nat (issued A), finsert (issued A) used)"
    unfolding f ..
  finally show ?thesis unfolding A_def .
qed

lemma issued_above: "m |\<in>| A \<Longrightarrow> m < issued A"
proof -
  assume m: "m |\<in>| A"
  then have ne: "A \<noteq> {||}" by auto
  from m have "m \<le> fMax A" by (rule fMax_ge)
  with ne show ?thesis by (simp add: issued_def)
qed

text \<open>
  Claim C5. A call of \<^verbatim>\<open>next_id\<close> returns \<^verbatim>\<open>A\<close> followed by a number \<open>n\<close> and adds
  \<open>n\<close> to the batch set. \<open>n\<close> exceeds every number of the batch set and, when the store is
  read (its identifiers being at most 50 characters long, as the column is), the numeric
  suffix of every stored identifier; with no line break in a stored identifier \<open>n\<close> is
  exactly one more than the maximum of the numbers seen, and 101 when there is none. When
  the read of the store raises, only the batch set is seen. The batch set only grows until
  it is cleared, and any later call on a batch set that holds \<open>n\<close>, whatever the store
  reads then, returns a larger number and a different identifier: two calls in a row never
  agree and no number is issued twice. With \<^verbatim>\<open>A101\<close> and \<^verbatim>\<open>A105\<close> stored and 106 in the
  batch set the call returns \<^verbatim>\<open>A107\<close>; with \<^verbatim>\<open>A105\<close> stored and an empty batch set,
  \<^verbatim>\<open>A106\<close>; with an empty store and an empty batch set, \<^verbatim>\<open>A101\<close>.
\<close>

theorem next_id_fresh_monotonic:
  "(\<exists>n. next_id T db used = (py ''A'' @ str_nat n, finsert n used) \<and>
        (\<forall>m. m |\<in>| used \<longrightarrow> m < n) \<and>
        (\<forall>stored r k. db = Some stored \<and> (\<forall>r\<in>set stored. length r \<le> 50) \<and>
             r \<in> set stored \<and> numeric_suffix r = Some k \<longrightarrow> k < n) \<and>
        (\<forall>stored. db = Some stored \<and> (\<forall>r\<in>set stored. length r \<le> 50 \<and> 10 \<notin> set r) \<longrightarrow>
             n = issued (seen_numbers stored used)) \<and>
        (db = None \<longrightarrow> n = issued used) \<and>
        (\<forall>T' db' used'. n |\<in>| used' \<longrightarrow>
           (\<exists>n'. next_id T' db' used' = (py ''A'' @ str_nat n', finsert n' used') \<and> n < n' \<and>
                 fst (next_id T' db' used') \<noteq> fst (next_id T db used)))) \<and>
   next_id T (Some [py ''A101'', py ''A105'']) {|106|} = (py ''A107'', {|107, 106|}) \<and>
   next_id T (Some [py ''A105'']) {||} = (py ''A106'', {|106|}) \<and>
   next_id T (Some []) {||} = (py ''A101'', {|101|})"
proof -
  have s1: "next_id T (Some [py ''A101'', py ''A105'']) {|106|} = (py ''A107'', {|107, 106|})"
    by (simp add: text_defs validator_defs repair_defs Let_def)
  have s2: "next_id T (Some [py ''A105'']) {||} = (py ''A106'', {|106|})"
    by (simp add: text_defs validator_defs repair_defs Let_def)
  have s3: "next_id T (Some []) {||} = (py ''A101'', {|101|})"
    by (simp add: text_defs validator_defs repair_defs Let_def)
  define n where "n = issued (db_ids T db |\<union>| used)"
  have a: "next_id T db used = (py ''A'' @ str_nat n, finsert n used)"
    unfolding n_def by (rule next_id_eq)
  have b: "\<forall>m. m |\<in>| used \<longrightarrow> m < n"
    unfolding n_def by (simp add: issued_above)
  have c: "\<forall>stored r k. db = Some stored \<and> (\<forall>r\<in>set stored. length r \<le> 50) \<and>
             r \<in> set stored \<and> numeric_suffix r = Some k \<longrightarrow> k < n"
  proof (intro allI impI)
    fix stored r k
    assume h: "db = Some stored \<and> (\<forall>r\<in>set stored. length r \<le> 50) \<and>
             r \<in> set stored \<and> numeric_suffix r = Some k"
    then have "k |\<in>| db_ids T (Some stored)"
      using suffix_in_db_ids [of stored r k T] by blast
    with h have "k |\<in>| db_ids T db |\<union>| used" by simp
    then show "k < n" unfolding n_def by (rule issued_above)
  qed
  have d: "\<forall>stored. db = Some stored \<and> (\<forall>r\<in>set stored. length r \<le> 50 \<and> 10 \<notin> set r) \<longrightarrow>
             n = issued (seen_numbers stored used)"
    unfolding n_def by (auto simp add: db_ids_seen)
  have e: "db = None \<longrightarrow> n = issued used"
    unfolding n_def by (simp add: db_ids_def)
  have f: "\<forall>T' db' used'. n |\<in>| used' \<longrightarrow>
           (\<exists>n'. next_id T' db' used' = (py ''A'' @ str_nat n', finsert n' used') \<and> n < n' \<and>
                 fst (next_id T' db' used') \<noteq> fst (next_id T db used))"
  proof (intro allI impI)
    fix T' db' used'
    assume u: "n |\<in>| used'"
    define n' where "n' = issued (db_ids T' db' |\<union>| used')"
    have a': "next_id T' db' used' = (py ''A'' @ str_nat n', finsert n' used')"
      unfolding n'_def by (rule next_id_eq)
    from u have "n |\<in>| db_ids T' db' |\<union>| used'" by simp
    then have lt: "n < n'" unfolding n'_def by (rule issued_above)
    then have "str_nat n' \<noteq> str_nat n" using str_nat_inj [of n' n] by auto
    then have "fst (next_id T' db' used') \<noteq> fst (next_id T db used)"
      unfolding a a' by simp
    with a' lt show "\<exists>n'. next_id T' db' used' = (py ''A'' @ str_nat n', finsert n' used') \<and> n < n' \<and>
                 fst (next_id T' db' used') \<noteq> fst (next_id T db used)" by blast
  qed
  from a b c d e f have "\<exists>n. next_id T db used = (py ''A'' @ str_nat n, finsert n used) \<and>
        (\<forall>m. m |\<in>| used \<longrightarrow> m < n) \<and>
        (\<forall>stored r k. db = Some stored \<and> (\<forall>r\<in>set stored. length r \<le> 50) \<and>
             r \<in> set stored \<and> numeric_suffix r = Some k \<longrightarrow> k < n) \<and>
        (\<forall>stored. db = Some stored \<and> (\<forall>r\<in>set stored. length r \<le> 50 \<and> 10 \<notin> set r) \<longrightarrow>
             n = issued (seen_numbers stored used)) \<and>
        (db = None \<longrightarrow> n = issued used) \<and>
        (\<forall>T' db' used'. n |\<in>| used' \<longrightarrow>
           (\<exists>n'. next_id T' db' used' = (py ''A'' @ str_nat n', finsert n' used') \<and> n < n' \<and>
                 fst (next_id T' db' used') \<noteq> fst (next_id T db used)))"
    by blast
  with s1 s2 s3 show ?thesis by blast
qed

theorem next_id_fresh_monotonic_witness:
  "next_id example_tables (Some [py ''A101'', py ''A105'']) {|106|} = (py ''A107'', {|107, 106|}) \<and>
   length (py ''A101'') \<le> 50 \<and> length (py ''A105'') \<le> 50 \<and>
   10 \<notin> set (py ''A101'') \<and> 10 \<notin> set (py ''A105'') \<and>
   numeric_suffix (py ''A105'') = Some 105 \<and> (105::nat) < 107 \<and> (106::nat) < 107 \<and>
   seen_numbers [py ''A101'', py ''A105''] {|106|} = {|101, 105, 106|} \<and>
   issued {|101, 105, 106|} = 107 \<and>
   107 |\<in>| {|107, 106::nat|} \<and>
   fst (next_id example_tables (Some [py ''A101'', py ''A105'']) {|107, 106|}) \<noteq> py ''A107'' \<and>
   fst (next_id example_tables None {|107, 106|}) \<noteq> py ''A107''"
proof -
  let ?st = "[py ''A101'', py ''A105'']"
  from next_id_fresh_monotonic [of example_tables "Some ?st" "{|106|}"] obtain n where
    a: "next_id example_tables (Some ?st) {|106|} = (py ''A'' @ str_nat n, finsert n {|106|})"
    and b: "\<forall>m. m |\<in>| {|106|} \<longrightarrow> m < n"
    and c: "\<forall>stored r k. Some ?st = Some stored \<and> (\<forall>r\<in>set stored. length r \<le> 50) \<and>
             r \<in> set stored \<and> numeric_suffix r = Some k \<longrightarrow> k < n"
    and d: "\<forall>stored. Some ?st = Some stored \<and> (\<forall>r\<in>set stored. length r \<le> 50 \<and> 10 \<notin> set r) \<longrightarrow>
             n = issued (seen_numbers stored {|106|})"
    and f: "\<forall>T' db' used'. n |\<in>| used' \<longrightarrow>
           (\<exists>n'. next_id T' db' used' = (py ''A'' @ str_nat n', finsert n' used') \<and> n < n' \<and>
                 fst (next_id T' db' used') \<noteq> fst (next_id example_tables (Some ?st) {|106|}))"
    by blast
  have h: "length (py ''A101'') \<le> 50 \<and> length (py ''A105'') \<le> 50 \<and>
           10 \<notin> set (py ''A101'') \<and> 10 \<notin> set (py ''A105'')"
    by (simp add: py_def)
  have k: "numeric_suffix (py ''A105'') = Some 105"
    by (simp add: numeric_suffix_def digits_nat_def is_ascii_digit_def py_def)
  have s: "seen_numbers ?st {|106|} = {|101, 105, 106|}"
    by (auto simp add: seen_numbers_def List.map_filter_def numeric_suffix_def digits_nat_def
          is_ascii_digit_def py_def)
  have i: "issued {|101, 105, 106|} = 107" by (simp add: issued_def)
  from d h have "n = issued (seen_numbers ?st {|106|})" by simp
  with s i have n: "n = 107" by simp
  from c h k have "105 < n" by auto
  have e: "str_nat 107 = py ''107''" by (simp add: text_defs)
  from a n e have a': "next_id example_tables (Some ?st) {|106|} = (py ''A107'', {|107, 106|})"
    by (simp add: py_def)
  have m: "107 |\<in>| {|107, 106::nat|}" by simp
  from f n m a' have x: "fst (next_id example_tables (Some ?st) {|107, 106|}) \<noteq> py ''A107''"
    by fastforce
  from f n m a' have y: "fst (next_id example_tables None {|107, 106|}) \<noteq> py ''A107''"
    by fastforce
  from a' h k s i m x y show ?thesis by simp
qed

section \<open>Placeholders\<close>

lemma dropWhile_all: "list_all P xs \<Longrightarrow> dropWhile P (xs @ ys) = dropWhile P ys"
  by (induction xs) auto

lemma dropWhile_hd: "xs \<noteq> [] \<Longrightarrow> \<not> P (hd xs) \<Longrightarrow> dropWhile P xs = xs"
  by (cases xs) auto

lemma strip_padded:
  assumes "list_all (isspace T) l" and "list_all (isspace T) r"
    and "p = [] \<or> \<not> isspace T (hd p) \<and> \<not> isspace T (last p)"
  shows "strip T (l @ p @ r) = p"
proof (cases "p = []")
  case True
  have e: "dropWhile (isspace T) (l @ p @ r) = []"
    using assms(1,2) True by (simp add: list_all_iff dropWhile_eq_Nil_conv)
  show ?thesis unfolding strip_def e using True by simp
next
  case False
  with assms have h: "\<not> isspace T (hd p)" and t: "\<not> isspace T (last p)" by auto
  have a: "dropWhile (isspace T) (l @ p @ r) = p @ r"
    using assms(1) False h by (simp add: dropWhile_all dropWhile_hd hd_append)
  have "list_all (isspace T) (rev r)" using assms(2) by (simp add: list_all_iff)
  then have b: "dropWhile (isspace T) (rev r @ rev p) = dropWhile (isspace T) (rev p)"
    by (rule dropWhile_all)
  have c: "dropWhile (isspace T) (rev p) = rev p"
    using False t by (simp add: dropWhile_hd hd_rev)
  show ?thesis by (simp add: strip_def a b c)
qed

text \<open>
  Claim C6, as the code has it, for every Unicode database. \<^verbatim>\<open>is_null\<close> compares the
  stripped string with six literal spellings: a string padded with whitespace around a
  core that neither starts nor ends with whitespace is a placeholder exactly when the core
  is spelled \<^verbatim>\<open>nan\<close>, \<^verbatim>\<open>None\<close>, \<^verbatim>\<open>NaT\<close>, \<^verbatim>\<open>none\<close>, \<^verbatim>\<open>null\<close> or is empty.
\<close>

theorem is_null_exact_spellings:
  assumes "list_all (isspace T) l" and "list_all (isspace T) r"
    and "p = [] \<or> \<not> isspace T (hd p) \<and> \<not> isspace T (last p)"
  shows "is_null T (l @ p @ r)
           = (p \<in> set [py ''nan'', py ''None'', py ''NaT'', py ''none'', py ''null'', py ''''])"
  using strip_padded [OF assms] by (simp add: is_null_def placeholders_def)

text \<open>
  The padding of the example holds a space, a no-break space (U+00A0), a next-line
  character (U+0085) and a line feed.
\<close>

theorem is_null_exact_spellings_witness:
  "list_all (isspace example_tables) [32, 160] \<and> list_all (isspace example_tables) [133, 10] \<and>
   \<not> isspace example_tables (hd (py ''NaT'')) \<and> \<not> isspace example_tables (last (py ''NaT'')) \<and>
   is_null example_tables ([32, 160] @ py ''NaT'' @ [133, 10]) \<and>
   \<not> isspace example_tables (hd (py ''NAT'')) \<and> \<not> isspace example_tables (last (py ''NAT'')) \<and>
   \<not> is_null example_tables ([32, 160] @ py ''NAT'' @ [133, 10]) \<and>
   is_null example_tables ([160] @ py ''nan'' @ [])"
proof -
  have a: "list_all (isspace example_tables) [32, 160]"
    by (simp add: isspace_def whitespace_def example_tables_def)
  have b: "list_all (isspace example_tables) [133, 10]"
    by (simp add: isspace_def whitespace_def example_tables_def)
  have a': "list_all (isspace example_tables) [160]"
    by (simp add: isspace_def whitespace_def example_tables_def)
  have b': "list_all (isspace example_tables) []" by simp
  have c: "\<not> isspace example_tables (hd (py ''NaT'')) \<and> \<not> isspace example_tables (last (py ''NaT''))"
    by (simp add: isspace_def whitespace_def py_def)
  have c': "\<not> isspace example_tables (hd (py ''NAT'')) \<and> \<not> isspace example_tables (last (py ''NAT''))"
    by (simp add: isspace_def whitespace_def py_def)
  have c'': "\<not> isspace example_tables (hd (py ''nan'')) \<and> \<not> isspace example_tables (last (py ''nan''))"
    by (simp add: isspace_def whitespace_def py_def)
  from c have d: "py ''NaT'' = [] \<or>
      \<not> isspace example_tables (hd (py ''NaT'')) \<and> \<not> isspace example_tables (last (py ''NaT''))"
    by blast
  from c' have d': "py ''NAT'' = [] \<or>
      \<not> isspace example_tables (hd (py ''NAT'')) \<and> \<not> isspace example_tables (last (py ''NAT''))"
    by blast
  from c'' have d'': "py ''nan'' = [] \<or>
      \<not> isspace example_tables (hd (py ''nan'')) \<and> \<not> isspace example_tables (last (py ''nan''))"
    by blast
  from is_null_exact_spellings [OF a b d]
  have e: "is_null example_tables ([32, 160] @ py ''NaT'' @ [133, 10])"
    by (simp add: py_def)
  from is_null_exact_spellings [OF a b d']
  have e': "\<not> is_null example_tables ([32, 160] @ py ''NAT'' @ [133, 10])"
    by (simp add: py_def)
  from is_null_exact_spellings [OF a' b' d'']
  have e'': "is_null example_tables ([160] @ py ''nan'' @ [])"
    by (simp add: py_def)
  from a b c c' e e' e'' show ?thesis by blast
qed

text \<open>
  Claim C6, as stated, fails: the comparison is case-sensitive, and other casings of the
  placeholders are not recognised.
\<close>

theorem is_null_case_sensitive_counterexample:
  "is_null example_tables (py ''NAN'') = False \<and> is_null example_tables (py ''NULL'') = False \<and>
   is_null example_tables (py ''Null'') = False \<and> is_null example_tables (py ''NONE'') = False \<and>
   is_null example_tables (py ''nat'') = False \<and> is_null example_tables (py ''Nan'') = False"
  by (simp add: is_null_def placeholders_def strip_def isspace_def whitespace_def py_def)

section \<open>Classification rule 9\<close>

text \<open>
  Claim C7, as the code has it, for every Unicode database. A raw value that none of the
  eight earlier tests files is appended to the name bucket, in title case, exactly when it
  has three characters or more and no digit among them; otherwise the buckets stay as they
  are, and nothing is raised. The test looks at the length and at digits only.
\<close>

theorem classify_rule_9:
  assumes "\<not> valid_id T v" and "\<not> valid_email T v" and "\<not> valid_pan T v"
    and "\<not> valid_aadhaar T v" and "\<not> valid_phone T v"
    and "lower T v \<notin> set EMPLOYMENT_TYPES" and "lower T v \<notin> set LOAN_PURPOSES"
    and "\<not> isdigit T v"
  shows "classify T v b =
           Inr (if 3 \<le> length v \<and> \<not> list_ex (is_digit_char T) v
                then b\<lparr>bk_name := bk_name b @ [title T v]\<rparr> else b)"
  using assms by (simp add: classify_def Let_def)

text \<open>
  Two values that reach rule 9: \<^verbatim>\<open>john smith\<close> is filed as \<^verbatim>\<open>John Smith\<close>, and a value
  of three characters with a superscript two (U+00B2) in the middle, which \<^verbatim>\<open>isdigit\<close>
  holds of, is not filed.
\<close>

theorem classify_rule_9_witness:
  "\<not> valid_id example_tables (py ''john smith'') \<and> \<not> valid_email example_tables (py ''john smith'') \<and>
   \<not> valid_pan example_tables (py ''john smith'') \<and> \<not> valid_aadhaar example_tables (py ''john smith'') \<and>
   \<not> valid_phone example_tables (py ''john smith'') \<and>
   lower example_tables (py ''john smith'') \<notin> set EMPLOYMENT_TYPES \<and>
   lower example_tables (py ''john smith'') \<notin> set LOAN_PURPOSES \<and>
   \<not> isdigit example_tables (py ''john smith'') \<and>
   classify example_tables (py ''john smith'') empty_bucket
     = Inr (empty_bucket\<lparr>bk_name := [py ''John Smith'']\<rparr>) \<and>
   \<not> valid_id example_tables [109, 178, 120] \<and> \<not> valid_email example_tables [109, 178, 120] \<and>
   \<not> valid_pan example_tables [109, 178, 120] \<and> \<not> valid_aadhaar example_tables [109, 178, 120] \<and>
   \<not> valid_phone example_tables [109, 178, 120] \<and>
   lower example_tables [109, 178, 120] \<notin> set EMPLOYMENT_TYPES \<and>
   lower example_tables [109, 178, 120] \<notin> set LOAN_PURPOSES \<and>
   \<not> isdigit example_tables [109, 178, 120] \<and>
   classify example_tables [109, 178, 120] empty_bucket = Inr empty_bucket"
proof -
  let ?T = example_tables
  let ?v = "py ''john smith''"
  let ?w = "[109, 178, 120] :: py_str"
  have a: "\<not> valid_id ?T ?v" by (simp add: text_defs validator_defs)
  have b: "\<not> valid_email ?T ?v" by (simp add: text_defs validator_defs)
  have c: "\<not> valid_pan ?T ?v" by (simp add: text_defs validator_defs)
  have d: "\<not> valid_aadhaar ?T ?v" by (simp add: text_defs validator_defs)
  have e: "\<not> valid_phone ?T ?v" by (simp add: text_defs validator_defs)
  have f: "lower ?T ?v \<notin> set EMPLOYMENT_TYPES" by (simp add: text_defs validator_defs)
  have g: "lower ?T ?v \<notin> set LOAN_PURPOSES" by (simp add: text_defs validator_defs)
  have h: "\<not> isdigit ?T ?v" by (simp add: text_defs validator_defs)
  have t: "title ?T ?v = py ''John Smith''" by (simp add: text_defs)
  have n: "\<not> list_ex (is_digit_char ?T) ?v" by (simp add: text_defs)
  have l: "3 \<le> length ?v" by (simp add: py_def)
  from classify_rule_9 [OF a b c d e f g h, of empty_bucket] t n l
  have r: "classify ?T ?v empty_bucket = Inr (empty_bucket\<lparr>bk_name := [py ''John Smith'']\<rparr>)"
    by (simp add: empty_bucket_def)
  have a': "\<not> valid_id ?T ?w" by (simp add: text_defs validator_defs example_tables_def)
  have b': "\<not> valid_email ?T ?w" by (simp add: text_defs validator_defs example_tables_def)
  have c': "\<not> valid_pan ?T ?w" by (simp add: text_defs validator_defs example_tables_def)
  have d': "\<not> valid_aadhaar ?T ?w" by (simp add: text_defs validator_defs example_tables_def)
  have e': "\<not> valid_phone ?T ?w" by (simp add: text_defs validator_defs example_tables_def)
  have f': "lower ?T ?w \<notin> set EMPLOYMENT_TYPES"
    by (simp add: text_defs validator_defs example_tables_def)
  have g': "lower ?T ?w \<notin> set LOAN_PURPOSES"
    by (simp add: text_defs validator_defs example_tables_def)
  have h': "\<not> isdigit ?T ?w" by (simp add: text_defs validator_defs example_tables_def)
  have n': "list_ex (is_digit_char ?T) ?w" by (simp add: text_defs example_tables_def)
  from classify_rule_9 [OF a' b' c' d' e' f' g' h', of empty_bucket] n'
  have r': "classify ?T ?w empty_bucket = Inr empty_bucket" by simp
  from a b c d e f g h r a' b' c' d' e' f' g' h' r' show ?thesis by blast
qed

text \<open>
  A value of three superscript twos passes \<^verbatim>\<open>isdigit\<close> and does not reach rule 9:
  \<^verbatim>\<open>int\<close> rejects it and the classification raises.
\<close>

lemma classify_superscript_digits:
  "classify example_tables [178, 178, 178] empty_bucket = Inl ValueError"
  by (simp add: text_defs validator_defs classify_def example_tables_def Let_def)

text \<open>
  Claim C7, as stated, fails: values that are not made of letters and spaces reach the
  name bucket.
\<close>

theorem classify_name_not_alphabetic_counterexample:
  "classify example_tables (py ''---'') empty_bucket = Inr (empty_bucket\<lparr>bk_name := [py ''---'']\<rparr>) \<and>
   list_all name_char (py ''---'') = False \<and>
   classify example_tables (py ''a@b'') empty_bucket = Inr (empty_bucket\<lparr>bk_name := [py ''A@B'']\<rparr>) \<and>
   list_all name_char (py ''a@b'') = False"
  by (simp add: text_defs validator_defs repair_defs Let_def)

section \<open>The preview of the validate endpoint\<close>

lemma length_repair_rows:
  "repair_rows T sci db used xs = Inr (rs, u) \<Longrightarrow> length rs = length xs"
proof (induction xs arbitrary: used rs u)
  case Nil
  then show ?case by simp
next
  case (Cons x xs)
  obtain r orig_row where x: "x = (r, orig_row)" by (cases x)
  from Cons.prems x obtain r' used' where s: "repair_row T sci db used orig_row r = Inr (r', used')"
    by (cases "repair_row T sci db used orig_row r") auto
  from Cons.prems x s obtain rs' u' where t: "repair_rows T sci db used' xs = Inr (rs', u')"
    by (cases "repair_rows T sci db used' xs") auto
  from Cons.prems x s t have "rs = r' # rs'" by simp
  moreover from Cons.IH [OF t] have "length rs' = length xs" .
  ultimately show ?case by simp
qed

lemma length_repair:
  assumes "repair T sci db used df original mp = Inr (rs, u)"
    and "length df = length (frame.rows original)"
  shows "length rs = length (frame.rows original)"
proof -
  from assms(1) obtain used' where
    "repair_rows T sci db used' (zip df (frame.rows original)) = Inr (rs, u)"
    by (auto simp add: repair_def split: if_splits sum.splits)
  from length_repair_rows [OF this] assms(2) show ?thesis by simp
qed

lemma process_length:
  assumes "process T e = Inr (mp, df)" and "env_file e = Some original"
    and "\<not> duplicated_field (labels mp original)"
  shows "length df = length (frame.rows original)"
proof -
  from assms obtain mp' where c: "call_llm (env_loads e) (env_oracle e) = Inr mp'"
    and p: "(if duplicated_field (labels mp' original)
             then map_sum id (Pair mp') (env_duplicate_columns e mp' original)
             else map_sum id (\<lambda>(df, used). (mp', df))
                    (repair T (env_sci e) (env_db e) {||}
                       (apply_mapping mp' original) original mp')) = Inr (mp, df)"
    by (auto simp add: process_def split: if_splits sum.splits)
  have m: "mp' = mp"
  proof (cases "duplicated_field (labels mp' original)")
    case True
    with p show ?thesis by (cases "env_duplicate_columns e mp' original") auto
  next
    case False
    with p show ?thesis
      by (cases "repair T (env_sci e) (env_db e) {||} (apply_mapping mp' original) original mp'")
        auto
  qed
  with assms(3) p obtain u where
    "repair T (env_sci e) (env_db e) {||} (apply_mapping mp original) original mp = Inr (df, u)"
    by (cases "repair T (env_sci e) (env_db e) {||} (apply_mapping mp original) original mp")
      auto
  from length_repair [OF this] show ?thesis by (simp add: apply_mapping_def)
qed

subsection \<open>Sheets of any length\<close>

lemma length_str_nat: "0 < k \<Longrightarrow> m < 10 ^ k \<Longrightarrow> length (str_nat m) \<le> k"
proof (induction m arbitrary: k rule: str_nat.induct)
  case (1 n)
  show ?case
  proof (cases "n < 10")
    case True
    with "1.prems" show ?thesis by (subst str_nat.simps) simp
  next
    case False
    with "1.prems" obtain j where k: "k = Suc j" by (cases k) auto
    from False "1.prems" k have j: "0 < j" by (cases j) auto
    from "1.prems" k have "n div 10 < 10 ^ j" by (simp add: less_mult_imp_div_less mult.commute)
    from "1.IH" [OF False j this] have "length (str_nat (n div 10)) \<le> j" .
    with False k show ?thesis by (subst str_nat.simps) simp
  qed
qed

lemma py_int_str_nat:
  assumes "m < 10000000"
  shows "py_int T (str_nat m) = Some (int m)"
proof -
  from assms have "m < 10 ^ 7" by simp
  from length_str_nat [OF _ this] have "length (str_nat m) \<le> 640" by simp
  with py_int_ascii(1) [of "str_nat m" T] str_nat_digits [of m] show ?thesis
    by (simp add: digits_nat_str_nat)
qed

lemma classify_john:
  "classify_all T empty_bucket (raw_values T no_sci [Some (py ''john smith'')])
     = Inr (empty_bucket\<lparr>bk_name := [py ''John Smith'']\<rparr>)"
  by (simp add: text_defs validator_defs normalize_value_def raw_values_def empty_bucket_def
        classify_def no_sci_def Let_def)

lemma repair_row_john:
  assumes "issued used < 10000000"
  shows "repair_row T no_sci None used [Some (py ''john smith'')] blank_row
           = Inr (blank_row\<lparr>applicant_id := Some (py ''A'' @ str_nat (issued used)),
                             applicant_name := Some (py ''John Smith'')\<rparr>,
                  finsert (issued used) used)"
proof -
  have n: "next_id T None used = (py ''A'' @ str_nat (issued used), finsert (issued used) used)"
    using next_id_eq [of T None used] by (simp add: db_ids_def)
  have t: "tl (py ''A'' @ str_nat (issued used)) = str_nat (issued used)" by (simp add: py_def)
  show ?thesis
    unfolding repair_row_def classify_john
    by (simp add: n t py_int_str_nat [OF assms] empty_bucket_def numeric_split_def
          assign_first_def assign_number_def blank_row_def)
qed

lemma issued_range: "issued (fset_of_list [101..<101 + k]) = 101 + k"
proof (cases k)
  case 0
  then show ?thesis by (simp add: issued_def)
next
  case (Suc j)
  let ?A = "fset_of_list [101..<101 + k]"
  from Suc have m: "100 + k |\<in>| ?A" by (simp add: fset_of_list.rep_eq)
  then have ne: "?A \<noteq> {||}" by auto
  from m have "100 + k \<le> fMax ?A" by (rule fMax_ge)
  moreover from ne have "fMax ?A |\<in>| ?A" by (rule fMax_in)
  then have "fMax ?A \<le> 100 + k" by (simp add: fset_of_list.rep_eq)
  ultimately have "fMax ?A = 100 + k" by simp
  with ne show ?thesis by (simp add: issued_def)
qed

lemma range_step: "finsert (101 + k) (fset_of_list [101..<101 + k]) = fset_of_list [101..<101 + Suc k]"
  by (auto simp add: fset_of_list.rep_eq)

lemma repair_rows_john:
  "k + n \<le> 1000000 \<Longrightarrow>
   repair_rows T no_sci None (fset_of_list [101..<101 + k])
       (replicate n (blank_row, [Some (py ''john smith'')]))
     = Inr (map uniform_row [k..<k + n], fset_of_list [101..<101 + (k + n)])"
proof (induction n arbitrary: k)
  case 0
  show ?case by simp
next
  case (Suc n)
  from Suc.prems have b: "issued (fset_of_list [101..<101 + k]) < 10000000"
    by (simp add: issued_range)
  from Suc.prems have "Suc k + n \<le> 1000000" by simp
  from Suc.IH [OF this]
  have ih: "repair_rows T no_sci None (fset_of_list [101..<101 + Suc k])
              (replicate n (blank_row, [Some (py ''john smith'')]))
            = Inr (map uniform_row [Suc k..<Suc k + n], fset_of_list [101..<101 + (Suc k + n)])" .
  have u: "[k..<k + Suc n] = k # [Suc k..<Suc k + n]" by (simp add: upt_rec)
  have s: "repair_row T no_sci None (fset_of_list [101..<101 + k]) [Some (py ''john smith'')] blank_row
             = Inr (uniform_row k, fset_of_list [101..<101 + Suc k])"
    unfolding repair_row_john [OF b] issued_range range_step uniform_row_def ..
  have e: "101 + (Suc k + n) = 101 + (k + Suc n)" by simp
  have "repair_rows T no_sci None (fset_of_list [101..<101 + k])
          ((blank_row, [Some (py ''john smith'')]) # replicate n (blank_row, [Some (py ''john smith'')]))
        = Inr (uniform_row k # map uniform_row [Suc k..<Suc k + n],
               fset_of_list [101..<101 + (Suc k + n)])"
    by (simp only: repair_rows.simps s sum.case prod.case ih)
  then show ?case unfolding u replicate_Suc e list.map .
qed

lemma process_uniform:
  assumes "n \<le> 1000000"
  shows "process T (uniform_env n) = Inr ([], map uniform_row [0..<n])"
proof -
  have c: "call_llm example_loads (Body (JObj [])) = Inr []"
    by (simp add: call_llm_def decode_def json_has_def ensure_dict_def parse_if_string_def)
  have l: "labels [] (uniform_sheet n) = [JStr (py ''Name'')]"
    by (simp add: labels_def rename_label_def uniform_sheet_def)
  have d: "\<not> duplicated_field [JStr (py ''Name'')]"
    by (simp add: duplicated_field_def required_def py_def)
  have m: "apply_mapping [] (uniform_sheet n) = replicate n blank_row"
    unfolding apply_mapping_def l
    by (simp add: mapped_row_def field_cell_def blank_row_def uniform_sheet_def py_def
          map_replicate_const)
  have f: "List.map_filter applicant_id (replicate n blank_row) = []"
    by (induction n) (simp_all add: List.map_filter_def blank_row_def)
  from assms have "0 + n \<le> 1000000" by simp
  from repair_rows_john [OF this, of T]
  have r: "repair_rows T no_sci None {||} (replicate n (blank_row, [Some (py ''john smith'')]))
             = Inr (map uniform_row [0..<n], fset_of_list [101..<101 + n])"
    by simp
  have "repair T no_sci None {||} (replicate n blank_row) (uniform_sheet n) []
          = Inr (map uniform_row [0..<n], fset_of_list [101..<101 + n])"
    by (simp add: repair_def f r uniform_sheet_def zip_replicate)
  then show ?thesis
    by (simp add: process_def uniform_env_def c l d m)
qed

text \<open>
  Claim C10. Whenever the steps that \<^verbatim>\<open>validate\<close> shares with \<^verbatim>\<open>upload\<close>, up to the
  repair, yield a mapping and a repaired frame, \<^verbatim>\<open>validate\<close> answers, and its preview is
  the records of the first twenty rows of that frame, in order: \<open>min 20 n\<close> entries for a
  frame of \<open>n\<close> rows. With no canonical label on two columns the repaired frame has one
  row per row of the uploaded sheet, so every row is repaired whether it is previewed or
  not. An exception of those steps leaves \<^verbatim>\<open>validate\<close> as it is. The steps do succeed on
  long sheets: on the sheet of \<open>n\<close> rows that hold \<^verbatim>\<open>john smith\<close>, up to a million rows,
  all \<open>n\<close> rows are repaired and the first \<open>min 20 n\<close> of them are previewed.
\<close>

theorem validate_preview_head_20:
  "(\<forall>mp df. process T e = Inr (mp, df) \<longrightarrow>
      validate T e = Inr \<lparr> status = py ''validated'', mapping = mp,
                           preview = map to_record (take 20 df) \<rparr> \<and>
      length (map to_record (take 20 df)) = min 20 (length df) \<and>
      (\<forall>original. env_file e = Some original \<and> \<not> duplicated_field (labels mp original) \<longrightarrow>
         length df = length (frame.rows original))) \<and>
   (\<forall>err. process T e = Inl err \<longrightarrow> validate T e = Inl err) \<and>
   (n \<le> 1000000 \<longrightarrow>
      process T (uniform_env n) = Inr ([], map uniform_row [0..<n]) \<and>
      validate T (uniform_env n)
        = Inr \<lparr> status = py ''validated'', mapping = [],
                preview = map to_record (map uniform_row [0..<min 20 n]) \<rparr>)"
proof -
  have a: "\<forall>mp df. process T e = Inr (mp, df) \<longrightarrow>
      validate T e = Inr \<lparr> status = py ''validated'', mapping = mp,
                           preview = map to_record (take 20 df) \<rparr> \<and>
      length (map to_record (take 20 df)) = min 20 (length df) \<and>
      (\<forall>original. env_file e = Some original \<and> \<not> duplicated_field (labels mp original) \<longrightarrow>
         length df = length (frame.rows original))"
  proof (intro allI impI conjI)
    fix mp df
    assume p: "process T e = Inr (mp, df)"
    show "validate T e = Inr \<lparr> status = py ''validated'', mapping = mp,
                           preview = map to_record (take 20 df) \<rparr>"
      by (simp add: validate_def p)
    show "length (map to_record (take 20 df)) = min 20 (length df)" by (simp add: min.commute)
    fix original
    assume "env_file e = Some original \<and> \<not> duplicated_field (labels mp original)"
    with process_length [OF p] show "length df = length (frame.rows original)" by blast
  qed
  have b: "\<forall>err. process T e = Inl err \<longrightarrow> validate T e = Inl err"
    by (simp add: validate_def)
  have c: "n \<le> 1000000 \<longrightarrow>
      process T (uniform_env n) = Inr ([], map uniform_row [0..<n]) \<and>
      validate T (uniform_env n)
        = Inr \<lparr> status = py ''validated'', mapping = [],
                preview = map to_record (map uniform_row [0..<min 20 n]) \<rparr>"
  proof
    assume "n \<le> 1000000"
    then have p: "process T (uniform_env n) = Inr ([], map uniform_row [0..<n])"
      by (rule process_uniform)
    have "take 20 (map uniform_row [0..<n]) = map uniform_row [0..<min 20 n]"
      by (simp add: take_map min_def)
    with p show "process T (uniform_env n) = Inr ([], map uniform_row [0..<n]) \<and>
      validate T (uniform_env n)
        = Inr \<lparr> status = py ''validated'', mapping = [],
                preview = map to_record (map uniform_row [0..<min 20 n]) \<rparr>"
      by (simp add: validate_def)
  qed
  from a b c show ?thesis by blast
qed

text \<open>
  A sheet of 21 rows: the repair issues \<^verbatim>\<open>A101\<close> to \<^verbatim>\<open>A121\<close>, and the preview holds the
  twenty records up to \<^verbatim>\<open>A120\<close>.
\<close>

theorem validate_preview_head_20_witness:
  "(21::nat) \<le> 1000000 \<and>
   env_file (uniform_env 21) = Some (uniform_sheet 21) \<and>
   length (frame.rows (uniform_sheet 21)) = 21 \<and>
   \<not> duplicated_field (labels [] (uniform_sheet 21)) \<and>
   process example_tables (uniform_env 21) = Inr ([], map uniform_row [0..<21]) \<and>
   length (map uniform_row [0..<21]) = 21 \<and>
   validate example_tables (uniform_env 21)
     = Inr \<lparr> status = py ''validated'', mapping = [],
             preview = map to_record (map uniform_row [0..<20]) \<rparr> \<and>
   length (map to_record (map uniform_row [0..<20])) = 20 \<and>
   to_record (uniform_row 19)
     = [(py ''applicant_id'', py ''A120''), (py ''applicant_name'', py ''John Smith''),
        (py ''phone_number'', []), (py ''email'', []), (py ''aadhaar_number'', []),
        (py ''pan_number'', []), (py ''loan_amount'', []), (py ''loan_purpose'', []),
        (py ''employment_type'', []), (py ''monthly_income'', [])] \<and>
   uniform_row 20 = blank_row\<lparr>applicant_id := Some (py ''A121''),
                              applicant_name := Some (py ''John Smith'')\<rparr>"
proof -
  let ?e = "uniform_env 21"
  note t = validate_preview_head_20 [of example_tables ?e 21]
  have n: "(21::nat) \<le> 1000000" by simp
  from t n have p: "process example_tables ?e = Inr ([], map uniform_row [0..<21])" by blast
  have f: "env_file ?e = Some (uniform_sheet 21)" by (simp add: uniform_env_def)
  have l: "length (frame.rows (uniform_sheet 21)) = 21" by (simp add: uniform_sheet_def)
  have d: "\<not> duplicated_field (labels [] (uniform_sheet 21))"
    by (simp add: labels_def rename_label_def uniform_sheet_def duplicated_field_def
          required_def py_def)
  from t p have v: "validate example_tables ?e
     = Inr \<lparr> status = py ''validated'', mapping = [],
             preview = map to_record (take 20 (map uniform_row [0..<21])) \<rparr>"
    by blast
  have k: "take 20 (map uniform_row [0..<21]) = map uniform_row [0..<20]"
    by (simp add: take_map del: upt_Suc)
  from t p f d have "length (map uniform_row [0..<21]) = length (frame.rows (uniform_sheet 21))"
    by blast
  with l have m: "length (map uniform_row [0..<21]) = 21" by simp
  have q: "length (map to_record (map uniform_row [0..<20])) = 20" by simp
  have r: "to_record (uniform_row 19)
     = [(py ''applicant_id'', py ''A120''), (py ''applicant_name'', py ''John Smith''),
        (py ''phone_number'', []), (py ''email'', []), (py ''aadhaar_number'', []),
        (py ''pan_number'', []), (py ''loan_amount'', []), (py ''loan_purpose'', []),
        (py ''employment_type'', []), (py ''monthly_income'', [])]"
    by (simp add: to_record_def fillna_def uniform_row_def blank_row_def text_defs)
  have s: "uniform_row 20 = blank_row\<lparr>applicant_id := Some (py ''A121''),
                              applicant_name := Some (py ''John Smith'')\<rparr>"
    by (simp add: uniform_row_def text_defs)
  from n f l d p m v k q r s show ?thesis by simp
qed

end
